theory Spec2Isabelle
  imports Main "HOL-Library.Log_Nat"
begin

unbundle bit_operations_syntax

section \<open>Floating-point arithmetic of the C code\<close>

text \<open>
  \<^verbatim>\<open>get_x264_quality\<close> and \<^verbatim>\<open>set_encoding_speed\<close> compute in C \<^verbatim>\<open>double\<close> and
  \<^verbatim>\<open>float\<close>. A floating-point value is modelled by the rational number it denotes, and
  every operation of the source is followed by the rounding IEEE 754 prescribes:
  round to nearest, ties to even, to 53 significant bits for \<^verbatim>\<open>double\<close> and 24 for
  \<^verbatim>\<open>float\<close>. The exponent range is not modelled: for a 32-bit percentage every value
  the two functions compute is zero or lies between \<open>2 ^ -5\<close> and \<open>2 ^ 28\<close> in
  magnitude, far from overflow and from the subnormal numbers. An \<^verbatim>\<open>int\<close> converts to
  \<^verbatim>\<open>double\<close> exactly.
\<close>

text \<open>\<open>ilog2 q\<close> is the binary exponent of \<open>q \<noteq> 0\<close>: the \<open>e\<close> with
  \<open>2 ^ e \<le> \<bar>q\<bar> < 2 ^ (e + 1)\<close>.\<close>

definition ilog2 :: "rat \<Rightarrow> int" where
  "ilog2 q = (case quotient_of \<bar>q\<bar> of (a, b) \<Rightarrow>
     (let d = bitlen a - bitlen b in if 2 powi d \<le> \<bar>q\<bar> then d else d - 1))"

text \<open>Round to the nearest integer, ties to the even one.\<close>

definition rint :: "rat \<Rightarrow> int" where
  "rint r = (let f = \<lfloor>r\<rfloor>; d = r - of_int f in
     if d < 1 / 2 then f else if 1 / 2 < d then f + 1 else if even f then f else f + 1)"

text \<open>Round to \<open>p\<close> significant bits.\<close>

definition rnd :: "nat \<Rightarrow> rat \<Rightarrow> rat" where
  "rnd p q = (if q = 0 then 0 else
     (let e = ilog2 q - (int p - 1) in of_int (rint (q / 2 powi e)) * 2 powi e))"

definition to_double :: "rat \<Rightarrow> rat" where
  "to_double q = rnd 53 q"

definition to_float :: "rat \<Rightarrow> rat" where
  "to_float q = rnd 24 q"

text \<open>C99 \<^verbatim>\<open>roundf\<close>: to the nearest integer, halfway cases away from zero.\<close>

definition roundf :: "rat \<Rightarrow> rat" where
  "roundf x = (if 0 \<le> x then of_int \<lfloor>x + 1 / 2\<rfloor> else of_int \<lceil>x - 1 / 2\<rceil>)"

text \<open>Conversion of a \<^verbatim>\<open>double\<close> to \<^verbatim>\<open>int\<close> (the initialiser of \<^verbatim>\<open>new_preset\<close>):
  the fractional part is discarded.\<close>

definition int_of_double :: "rat \<Rightarrow> int" where
  "int_of_double x = (if 0 \<le> x then \<lfloor>x\<rfloor> else \<lceil>x\<rceil>)"

text \<open>The macros of x264lib.c, which evaluate to \<^verbatim>\<open>a\<close> or \<^verbatim>\<open>b\<close> as written:
  \<^verbatim>\<open>#define MAX(a,b) ((a) > (b) ? a : b)\<close> and \<^verbatim>\<open>#define MIN(a,b) ((a) < (b) ? a : b)\<close>.\<close>

definition MAX_macro :: "'a::linorder \<Rightarrow> 'a \<Rightarrow> 'a" where
  "MAX_macro a b = (if a > b then a else b)"

definition MIN_macro :: "'a::linorder \<Rightarrow> 'a \<Rightarrow> 'a" where
  "MIN_macro a b = (if a < b then a else b)"

section \<open>The external libraries\<close>

text \<open>
  x264lib.c drives three libraries that are not part of the repository: x264 (the
  encoder), libavcodec (the decoder) and libswscale (the colour converters). What the
  code needs of them is gathered in one parameter \<open>l\<close>, so that every theorem holds for
  whatever the libraries define and answer:
  \<^item> the constants of their headers the code names (\<^verbatim>\<open>X264_CSP_*\<close>, \<^verbatim>\<open>PIX_FMT_*\<close>,
    \<^verbatim>\<open>SWS_*\<close>) and the parameter block \<^verbatim>\<open>x264_param_default\<close> fills in;
  \<^item> the outcome of every call that can fail or that produces data: whether
    \<^verbatim>\<open>x264_encoder_open\<close>, \<^verbatim>\<open>sws_getContext\<close> and \<^verbatim>\<open>avcodec_open2\<close> succeed for given
    arguments, what \<^verbatim>\<open>avcodec_find_decoder\<close> returns, and what the encoder and the
    decoder answer for a frame.
  A pointer is \<open>None\<close> (\<^verbatim>\<open>NULL\<close>) or \<open>Some\<close> address. The objects the libraries allocate live
  in the stores of a \<open>world\<close>, keyed by address; an address is handed out once
  (\<open>next_ptr\<close>), so two engine instances never share an identity. The \<open>trace\<close> records
  every library call that creates, destroys, reconfigures or runs an engine or a
  converter, and every line written to \<^verbatim>\<open>stderr\<close>. Allocation by \<^verbatim>\<open>malloc\<close> and by
  \<^verbatim>\<open>avcodec_alloc_context3\<close> is taken to succeed.
\<close>

type_synonym ptr = nat

text \<open>What dereferencing a bad pointer does to the C program; a function that can
  dereference one returns \<open>fault + result\<close>.\<close>

datatype fault = NULL_POINTER | DANGLING_POINTER

text \<open>\<^verbatim>\<open>x264_param_t\<close>: the fields x264lib.c writes, and the preset, tune and profile
  that \<^verbatim>\<open>x264_param_default_preset\<close> and \<^verbatim>\<open>x264_param_apply_profile\<close> were given, which
  stand for the many fields those two calls set.\<close>

record x264_param_t =
  param_preset :: "string option"
  param_tune :: "string option"
  param_profile :: "string option"
  i_threads :: int
  i_width :: int
  i_height :: int
  i_csp :: int
  f_rf_constant :: rat
  i_log_level :: int

text \<open>The binding of a \<^verbatim>\<open>struct SwsContext\<close>: the arguments of \<^verbatim>\<open>sws_getContext\<close>.\<close>

record SwsContext =
  srcW :: int
  srcH :: int
  srcFormat :: int
  dstW :: int
  dstH :: int
  dstFormat :: int
  flags :: int

record AVCodecContext =
  av_width :: int
  av_height :: int
  pix_fmt :: int
  is_open :: bool

record x264_picture_t =
  i_pts :: int
  pic_param :: "x264_param_t option"

record AVFrame =
  data :: "ptr option list"
  linesize :: "int list"

record lib =
  X264_CSP_I420 :: int
  X264_CSP_I422 :: int
  X264_CSP_I444 :: int
  PIX_FMT_YUV420P :: int
  PIX_FMT_YUV422P :: int
  PIX_FMT_YUV444P :: int
  PIX_FMT_RGB24 :: int
  SWS_SINC :: int
  SWS_ACCURATE_RND :: int
  x264_param_default :: x264_param_t
  x264_encoder_open_ok :: "x264_param_t \<Rightarrow> bool"
  x264_encoder_encode_result :: "x264_param_t \<Rightarrow> x264_picture_t \<Rightarrow> int \<times> ptr option"
  sws_getContext_ok :: "SwsContext \<Rightarrow> bool"
  avcodec_find_decoder_result :: "ptr option"
  avcodec_open2_ok :: "AVCodecContext \<Rightarrow> bool"
  avcodec_decode_video2_result :: "AVCodecContext \<Rightarrow> nat list \<Rightarrow> int \<times> int \<times> AVFrame"

datatype event =
    X264_encoder_open x264_param_t "ptr option"
  | X264_encoder_close ptr
  | X264_encoder_reconfig ptr x264_param_t
  | X264_encoder_encode ptr ptr
  | Sws_getContext SwsContext "ptr option"
  | Sws_freeContext ptr
  | Avcodec_open2 ptr bool
  | Avcodec_close ptr
  | Avcodec_decode_video2 ptr
  | Stderr string

record world =
  next_ptr :: ptr
  encoders :: "ptr \<rightharpoonup> x264_param_t"
  sws_contexts :: "ptr \<rightharpoonup> SwsContext"
  codec_contexts :: "ptr \<rightharpoonup> AVCodecContext"
  pictures :: "ptr \<rightharpoonup> x264_picture_t"
  trace :: "event list"

definition log_event :: "event \<Rightarrow> world \<Rightarrow> world" where
  "log_event e w = w\<lparr>trace := trace w @ [e]\<rparr>"

text \<open>The table of x264.h, as the comment in \<^verbatim>\<open>struct x264lib_ctx\<close> quotes it:
  \<^verbatim>\<open>x264_preset_names[] = { "ultrafast", "superfast", "veryfast", "faster", "fast",
  "medium", "slow", "slower", "veryslow", "placebo", 0 }\<close>. Index 10 is the terminating
  null pointer; x264lib.c indexes the table with 2 and with \<^verbatim>\<open>new_preset\<close>, which lies
  in \<open>0..7\<close>.\<close>

definition x264_preset_names :: "string list" where
  "x264_preset_names = [''ultrafast'', ''superfast'', ''veryfast'', ''faster'', ''fast'',
     ''medium'', ''slow'', ''slower'', ''veryslow'', ''placebo'']"

definition x264_preset_name :: "int \<Rightarrow> string option" where
  "x264_preset_name i =
     (if 0 \<le> i \<and> i < 10 then Some (x264_preset_names ! nat i) else None)"

text \<open>\<^verbatim>\<open>x264_param_default_preset\<close> resets the whole block to the library's defaults and
  then applies the preset and the tune.\<close>

definition x264_param_default_preset :: "lib \<Rightarrow> string option \<Rightarrow> string \<Rightarrow> x264_param_t" where
  "x264_param_default_preset l p t =
     (x264_param_default l)\<lparr>param_preset := p, param_tune := Some t\<rparr>"

definition x264_param_apply_profile :: "x264_param_t \<Rightarrow> string option \<Rightarrow> x264_param_t" where
  "x264_param_apply_profile param p = param\<lparr>param_profile := p\<rparr>"

text \<open>\<^verbatim>\<open>x264_encoder_open\<close>: a new engine instance at a fresh address, holding the
  parameter block it was opened with, or \<^verbatim>\<open>NULL\<close>.\<close>

definition x264_encoder_open :: "lib \<Rightarrow> world \<Rightarrow> x264_param_t \<Rightarrow> ptr option \<times> world" where
  "x264_encoder_open l w param =
     (if x264_encoder_open_ok l param
      then (let h = next_ptr w in
        (Some h, log_event (X264_encoder_open param (Some h))
           (w\<lparr>next_ptr := h + 1, encoders := (encoders w)(h \<mapsto> param)\<rparr>)))
      else (None, log_event (X264_encoder_open param None) w))"

definition x264_encoder_close :: "world \<Rightarrow> ptr \<Rightarrow> world" where
  "x264_encoder_close w h =
     log_event (X264_encoder_close h) (w\<lparr>encoders := (encoders w)(h := None)\<rparr>)"

text \<open>\<^verbatim>\<open>x264_encoder_parameters\<close> reads the live parameter block of the engine.\<close>

definition x264_encoder_parameters :: "world \<Rightarrow> ptr option \<Rightarrow> fault + x264_param_t" where
  "x264_encoder_parameters w e =
     (case e of None \<Rightarrow> Inl NULL_POINTER
      | Some h \<Rightarrow> (case encoders w h of None \<Rightarrow> Inl DANGLING_POINTER | Some p \<Rightarrow> Inr p))"

text \<open>\<^verbatim>\<open>x264_encoder_reconfig\<close> writes a parameter block back to the live engine. (The
  library takes over the fields it can change on a running encoder; the model keeps the
  block as written.)\<close>

definition x264_encoder_reconfig :: "world \<Rightarrow> ptr option \<Rightarrow> x264_param_t \<Rightarrow> fault + world" where
  "x264_encoder_reconfig w e param =
     (case e of None \<Rightarrow> Inl NULL_POINTER
      | Some h \<Rightarrow> (case encoders w h of None \<Rightarrow> Inl DANGLING_POINTER
          | Some p \<Rightarrow> Inr (log_event (X264_encoder_reconfig h param)
              (w\<lparr>encoders := (encoders w)(h \<mapsto> param)\<rparr>))))"

text \<open>\<^verbatim>\<open>x264_encoder_encode\<close>: the frame size and the payload pointer of the first NAL
  unit, as the engine answers for its parameters and the picture.\<close>

definition x264_encoder_encode ::
  "lib \<Rightarrow> world \<Rightarrow> ptr option \<Rightarrow> ptr \<Rightarrow> fault + (int \<times> ptr option) \<times> world" where
  "x264_encoder_encode l w e pic_in =
     (case e of None \<Rightarrow> Inl NULL_POINTER
      | Some h \<Rightarrow>
          (case encoders w h of
             None \<Rightarrow> Inl DANGLING_POINTER
           | Some param \<Rightarrow>
               (case pictures w pic_in of
                  None \<Rightarrow> Inl DANGLING_POINTER
                | Some pic \<Rightarrow>
                    Inr (x264_encoder_encode_result l param pic,
                         log_event (X264_encoder_encode h pic_in) w))))"

definition sws_getContext :: "lib \<Rightarrow> world \<Rightarrow> SwsContext \<Rightarrow> ptr option \<times> world" where
  "sws_getContext l w c =
     (if sws_getContext_ok l c
      then (let h = next_ptr w in
        (Some h, log_event (Sws_getContext c (Some h))
           (w\<lparr>next_ptr := h + 1, sws_contexts := (sws_contexts w)(h \<mapsto> c)\<rparr>)))
      else (None, log_event (Sws_getContext c None) w))"

definition sws_freeContext :: "world \<Rightarrow> ptr \<Rightarrow> world" where
  "sws_freeContext w h =
     log_event (Sws_freeContext h) (w\<lparr>sws_contexts := (sws_contexts w)(h := None)\<rparr>)"

definition avcodec_find_decoder :: "lib \<Rightarrow> ptr option" where
  "avcodec_find_decoder l = avcodec_find_decoder_result l"

definition avcodec_alloc_context3 :: "world \<Rightarrow> ptr \<times> world" where
  "avcodec_alloc_context3 w =
     (let c = next_ptr w in
      (c, w\<lparr>next_ptr := c + 1,
            codec_contexts := (codec_contexts w)
              (c \<mapsto> \<lparr>av_width = 0, av_height = 0, pix_fmt = - 1, is_open = False\<rparr>)\<rparr>))"

text \<open>\<^verbatim>\<open>avcodec_open2\<close> returns 0, or a negative error code and leaves the context
  unopened.\<close>

definition avcodec_open2 :: "lib \<Rightarrow> world \<Rightarrow> ptr \<Rightarrow> fault + int \<times> world" where
  "avcodec_open2 l w c =
     (case codec_contexts w c of
        None \<Rightarrow> Inl DANGLING_POINTER
      | Some cc \<Rightarrow>
          if avcodec_open2_ok l cc
          then Inr (0, log_event (Avcodec_open2 c True)
                  (w\<lparr>codec_contexts := (codec_contexts w)(c \<mapsto> cc\<lparr>is_open := True\<rparr>)\<rparr>))
          else Inr (- 1, log_event (Avcodec_open2 c False) w))"

text \<open>\<^verbatim>\<open>avcodec_close(c); av_free(c);\<close>\<close>

definition avcodec_close_free :: "world \<Rightarrow> ptr \<Rightarrow> world" where
  "avcodec_close_free w c =
     log_event (Avcodec_close c) (w\<lparr>codec_contexts := (codec_contexts w)(c := None)\<rparr>)"

section \<open>x264lib.c\<close>

text \<open>The file is modelled as it compiles outside MS Windows (the \<^verbatim>\<open>#ifndef _WIN32\<close>
  branches) and with \<^verbatim>\<open>SUPPORT_CSC_MODES\<close> defined, as the file defines it. C \<^verbatim>\<open>int\<close>
  values are integers: no \<^verbatim>\<open>int\<close> arithmetic of these functions can overflow on a
  percentage, and the sums of \<^verbatim>\<open>decompress_image\<close> are taken without overflow.\<close>

record x264lib_ctx =
  width :: int
  height :: int
  csc_format :: int
  codec :: "ptr option"
  codec_ctx :: "ptr option"
  yuv2rgb :: "ptr option"
  encoder :: "ptr option"
  rgb2yuv :: "ptr option"
  quality :: int
  supports_csc_option :: int
  encoding_preset :: int
  x264_quality :: rat
  colour_sampling :: int
  profile :: "string option"
  preset :: "string option"
  csc_algo :: int

text \<open>The context after \<^verbatim>\<open>malloc\<close> and \<^verbatim>\<open>memset(ctx, 0, sizeof(struct x264lib_ctx))\<close>.\<close>

definition zeroed_ctx :: x264lib_ctx where
  "zeroed_ctx = \<lparr>width = 0, height = 0, csc_format = 0, codec = None, codec_ctx = None,
     yuv2rgb = None, encoder = None, rgb2yuv = None, quality = 0, supports_csc_option = 0,
     encoding_preset = 0, x264_quality = 0, colour_sampling = 0, profile = None, preset = None,
     csc_algo = 0\<rparr>"

text \<open>
  \<^verbatim>\<open>float get_x264_quality(int pct) {
      return roundf(50.0 - (MIN(100, MAX(0, pct)) * 49.0 / 100.0)); }\<close>
  The clamped percentage is an \<^verbatim>\<open>int\<close> and converts to \<^verbatim>\<open>double\<close> exactly; the
  product, the quotient and the difference are \<^verbatim>\<open>double\<close> operations; \<^verbatim>\<open>roundf\<close>
  takes the difference converted to \<^verbatim>\<open>float\<close>.
\<close>

definition get_x264_quality :: "int \<Rightarrow> rat" where
  "get_x264_quality pct =
     roundf (to_float (to_double (50 -
       to_double (to_double (of_int (MIN_macro 100 (MAX_macro 0 pct)) * 49) / 100))))"

definition I422_MIN_QUALITY :: int where
  "I422_MIN_QUALITY = 80"

definition I444_MIN_QUALITY :: int where
  "I444_MIN_QUALITY = 90"

definition get_x264_colour_sampling :: "lib \<Rightarrow> x264lib_ctx \<Rightarrow> int \<Rightarrow> int" where
  "get_x264_colour_sampling l ctx pct =
     (if supports_csc_option ctx = 0 \<or> pct < I422_MIN_QUALITY then X264_CSP_I420 l
      else if pct < I444_MIN_QUALITY then X264_CSP_I422 l
      else X264_CSP_I444 l)"

definition get_csc_format_for_x264_format :: "lib \<Rightarrow> int \<Rightarrow> int" where
  "get_csc_format_for_x264_format l csp =
     (if csp = X264_CSP_I420 l then PIX_FMT_YUV420P l
      else if csp = X264_CSP_I422 l then PIX_FMT_YUV422P l
      else if csp = X264_CSP_I444 l then PIX_FMT_YUV444P l
      else - 1)"

definition get_csc_algo_for_quality :: "lib \<Rightarrow> int \<Rightarrow> int" where
  "get_csc_algo_for_quality l initial_quality = SWS_SINC l OR SWS_ACCURATE_RND l"

definition PROFILE_BASELINE :: string where
  "PROFILE_BASELINE = ''baseline''"

definition PROFILE_HIGH422 :: string where
  "PROFILE_HIGH422 = ''high422''"

definition PROFILE_HIGH444_PREDICTIVE :: string where
  "PROFILE_HIGH444_PREDICTIVE = ''high444''"

definition get_profile_for_quality :: "int \<Rightarrow> string" where
  "get_profile_for_quality pct =
     (if pct < I422_MIN_QUALITY then PROFILE_BASELINE
      else if pct < I444_MIN_QUALITY then PROFILE_HIGH422
      else PROFILE_HIGH444_PREDICTIVE)"

text \<open>\<^verbatim>\<open>init_encoder_csc\<close> frees the old converter, clears the field and returns the new
  converter, which the caller stores.\<close>

definition init_encoder_csc ::
  "lib \<Rightarrow> x264lib_ctx \<times> world \<Rightarrow> ptr option \<times> x264lib_ctx \<times> world" where
  "init_encoder_csc l s =
     (case s of (ctx, w) \<Rightarrow>
       (case (case rgb2yuv ctx of None \<Rightarrow> (ctx, w)
              | Some h \<Rightarrow> (ctx\<lparr>rgb2yuv := None\<rparr>, sws_freeContext w h)) of
         (ctx1, w1) \<Rightarrow>
           (case sws_getContext l w1
               \<lparr>srcW = width ctx1, srcH = height ctx1, srcFormat = PIX_FMT_RGB24 l,
                dstW = width ctx1, dstH = height ctx1, dstFormat = csc_format ctx1,
                flags = csc_algo ctx1\<rparr> of
             (p, w2) \<Rightarrow> (p, ctx1, w2))))"

definition do_init_encoder ::
  "lib \<Rightarrow> x264lib_ctx \<times> world \<Rightarrow> int \<Rightarrow> int \<Rightarrow> int \<Rightarrow> int \<Rightarrow> x264lib_ctx \<times> world" where
  "do_init_encoder l s w0 h0 initial_quality supports =
     (case s of (ctx, w) \<Rightarrow>
       (let ctx1 = ctx\<lparr>quality := initial_quality, supports_csc_option := supports\<rparr>;
            ctx2 = ctx1\<lparr>colour_sampling := get_x264_colour_sampling l ctx1 initial_quality\<rparr>;
            ctx3 = ctx2\<lparr>x264_quality := get_x264_quality initial_quality\<rparr>;
            ctx4 = ctx3\<lparr>csc_format := get_csc_format_for_x264_format l (colour_sampling ctx3)\<rparr>;
            ctx5 = ctx4\<lparr>encoding_preset := 2\<rparr>;
            ctx6 = ctx5\<lparr>preset := x264_preset_name (encoding_preset ctx5)\<rparr>;
            ctx7 = ctx6\<lparr>profile := Some (get_profile_for_quality initial_quality)\<rparr>;
            ctx8 = ctx7\<lparr>csc_algo := get_csc_algo_for_quality l initial_quality\<rparr>;
            param = x264_param_apply_profile
              ((x264_param_default_preset l (preset ctx8) ''zerolatency'')
                 \<lparr>i_threads := 1, i_width := w0, i_height := h0,
                  i_csp := colour_sampling ctx8, f_rf_constant := x264_quality ctx8,
                  i_log_level := 0\<rparr>)
              (profile ctx8)
        in (case x264_encoder_open l w param of
             (e, w1) \<Rightarrow>
               (let ctx9 = ctx8\<lparr>encoder := e, width := w0, height := h0\<rparr>
                in (case init_encoder_csc l (ctx9, w1) of
                     (p, ctx10, w2) \<Rightarrow> (ctx10\<lparr>rgb2yuv := p\<rparr>, w2))))))"

definition init_encoder ::
  "lib \<Rightarrow> world \<Rightarrow> int \<Rightarrow> int \<Rightarrow> int \<Rightarrow> int \<Rightarrow> x264lib_ctx \<times> world" where
  "init_encoder l w w0 h0 initial_quality supports =
     do_init_encoder l (zeroed_ctx, w) w0 h0 initial_quality supports"

definition clean_encoder :: "x264lib_ctx \<times> world \<Rightarrow> x264lib_ctx \<times> world" where
  "clean_encoder s =
     (case s of (ctx, w) \<Rightarrow>
       (case (case rgb2yuv ctx of None \<Rightarrow> (ctx, w)
              | Some h \<Rightarrow> (ctx\<lparr>rgb2yuv := None\<rparr>, sws_freeContext w h)) of
         (ctx1, w1) \<Rightarrow>
           (case encoder ctx1 of None \<Rightarrow> (ctx1, w1)
            | Some h \<Rightarrow> (ctx1\<lparr>encoder := None\<rparr>, x264_encoder_close w1 h))))"

text \<open>
  \<^verbatim>\<open>int new_preset = 7-MAX(0, MIN(7, pct/12.5));\<close>
  With the macros expanded this is \<^verbatim>\<open>7-((0) > (m) ? 0 : m)\<close> for
  \<^verbatim>\<open>m = ((7) < (pct/12.5) ? 7 : pct/12.5)\<close>: the quotient and the difference are
  \<^verbatim>\<open>double\<close> operations, and the initialisation converts the difference to \<^verbatim>\<open>int\<close>.
\<close>

definition new_preset :: "int \<Rightarrow> int" where
  "new_preset pct =
     int_of_double (to_double (7 - MAX_macro 0 (MIN_macro 7 (to_double (of_int pct / (25 / 2))))))"

definition set_encoding_speed ::
  "lib \<Rightarrow> x264lib_ctx \<times> world \<Rightarrow> int \<Rightarrow> fault + x264lib_ctx \<times> world" where
  "set_encoding_speed l s pct =
     (case s of (ctx, w) \<Rightarrow>
       (case x264_encoder_parameters w (encoder ctx) of
          Inl f \<Rightarrow> Inl f
        | Inr param0 \<Rightarrow>
            if new_preset pct = encoding_preset ctx then Inr (ctx, w)
            else
              (let ctx1 = ctx\<lparr>encoding_preset := new_preset pct\<rparr>;
                   param = x264_param_apply_profile
                     (x264_param_default_preset l (x264_preset_name (encoding_preset ctx1))
                        ''zerolatency'')
                     (Some ''baseline'')
               in (case x264_encoder_reconfig w (encoder ctx1) param of
                     Inl f \<Rightarrow> Inl f
                   | Inr w1 \<Rightarrow> Inr (ctx1, w1)))))"

definition set_encoding_quality ::
  "lib \<Rightarrow> x264lib_ctx \<times> world \<Rightarrow> int \<Rightarrow> fault + x264lib_ctx \<times> world" where
  "set_encoding_quality l s pct =
     (case s of (ctx, w) \<Rightarrow>
       if supports_csc_option ctx \<noteq> 0
          \<and> colour_sampling ctx \<noteq> get_x264_colour_sampling l ctx pct
       then
         (case clean_encoder (ctx, w) of
            (ctx1, w1) \<Rightarrow>
              Inr (do_init_encoder l (ctx1, w1) (width ctx1) (height ctx1) pct
                     (supports_csc_option ctx1)))
       else
         (case
            (if (quality ctx AND NOT 1) \<noteq> (pct AND NOT 1) then
               (case x264_encoder_parameters w (encoder ctx) of
                  Inl f \<Rightarrow> Inl f
                | Inr param \<Rightarrow>
                    (let new_quality = get_x264_quality pct;
                         ctx1 = ctx\<lparr>quality := pct, x264_quality := new_quality\<rparr>
                     in (case x264_encoder_reconfig w (encoder ctx1)
                                (param\<lparr>f_rf_constant := new_quality\<rparr>) of
                           Inl f \<Rightarrow> Inl f
                         | Inr w1 \<Rightarrow> Inr (ctx1, w1))))
             else Inr (ctx, w)) of
            Inl f \<Rightarrow> Inl f
          | Inr (ctx2, w2) \<Rightarrow>
              (let old_csc_algo = csc_algo ctx2;
                   ctx3 = ctx2\<lparr>csc_algo := get_csc_algo_for_quality l pct\<rparr>
               in if old_csc_algo \<noteq> csc_algo ctx3
                  then (case init_encoder_csc l (ctx3, w2) of
                          (p, ctx4, w3) \<Rightarrow> Inr (ctx4\<lparr>rgb2yuv := p\<rparr>, w3))
                  else Inr (ctx3, w2))))"

text \<open>\<^verbatim>\<open>free_csc_image\<close>: \<^verbatim>\<open>x264_picture_clean(image); free(image);\<close>\<close>

definition free_csc_image :: "world \<Rightarrow> ptr \<Rightarrow> world" where
  "free_csc_image w pic = w\<lparr>pictures := (pictures w)(pic := None)\<rparr>"

text \<open>\<^verbatim>\<open>compress_image\<close> returns its code and the values it leaves in \<^verbatim>\<open>*out\<close> and
  \<^verbatim>\<open>*outsz\<close>; \<open>out0\<close> is what the caller had there.\<close>

definition compress_image ::
  "lib \<Rightarrow> x264lib_ctx \<times> world \<Rightarrow> ptr \<Rightarrow> ptr option \<times> int \<Rightarrow> int
     \<Rightarrow> fault + int \<times> (ptr option \<times> int) \<times> world" where
  "compress_image l s pic_in out0 quality_override =
     (case s of (ctx, w) \<Rightarrow>
       if encoder ctx = None \<or> rgb2yuv ctx = None
       then Inr (1, (None, 0), free_csc_image w pic_in)
       else
         (case pictures w pic_in of
            None \<Rightarrow> Inl DANGLING_POINTER
          | Some pic0 \<Rightarrow>
              (case
                 (let pic1 = pic0\<lparr>i_pts := 1\<rparr>
                  in if quality_override \<ge> 0
                     then
                       (let new_q = get_x264_quality quality_override
                        in if new_q \<noteq> x264_quality ctx
                           then
                             (case x264_encoder_parameters w (encoder ctx) of
                                Inl f \<Rightarrow> Inl f
                              | Inr param \<Rightarrow>
                                  Inr (pic1\<lparr>pic_param := Some (param\<lparr>f_rf_constant := new_q\<rparr>)\<rparr>))
                           else Inr pic1)
                     else Inr pic1) of
                 Inl f \<Rightarrow> Inl f
               | Inr pic2 \<Rightarrow>
                   (case x264_encoder_encode l (w\<lparr>pictures := (pictures w)(pic_in \<mapsto> pic2)\<rparr>)
                           (encoder ctx) pic_in of
                      Inl f \<Rightarrow> Inl f
                    | Inr ((frame_size, payload), w1) \<Rightarrow>
                        if frame_size < 0
                        then Inr (2, (None, 0),
                               free_csc_image
                                 (log_event
                                    (Stderr ''Problem during x264_encoder_encode: frame_size is invalid!'')
                                    w1) pic_in)
                        else Inr (0, (payload, frame_size), free_csc_image w1 pic_in)))))"

definition init_decoder_context ::
  "lib \<Rightarrow> x264lib_ctx \<times> world \<Rightarrow> int \<Rightarrow> int \<Rightarrow> int \<Rightarrow> fault + int \<times> x264lib_ctx \<times> world" where
  "init_decoder_context l s w0 h0 csc_fmt0 =
     (case s of (ctx, w) \<Rightarrow>
       (let csc_fmt = (if csc_fmt0 < 0 then PIX_FMT_YUV420P l else csc_fmt0);
            ctx1 = ctx\<lparr>width := w0, height := h0, csc_format := csc_fmt\<rparr>;
            ctx2 = ctx1\<lparr>csc_algo := get_csc_algo_for_quality l 100\<rparr>
        in (case sws_getContext l w
               \<lparr>srcW = width ctx2, srcH = height ctx2, srcFormat = csc_format ctx2,
                dstW = width ctx2, dstH = height ctx2, dstFormat = PIX_FMT_RGB24 l,
                flags = csc_algo ctx2\<rparr> of
             (p, w1) \<Rightarrow>
               (let ctx3 = ctx2\<lparr>yuv2rgb := p\<rparr>;
                    ctx4 = ctx3\<lparr>codec := avcodec_find_decoder l\<rparr>
                in if codec ctx4 = None
                   then Inr (1, ctx4, log_event (Stderr ''codec H264 not found!'') w1)
                   else
                     (case avcodec_alloc_context3 w1 of
                        (c, w2) \<Rightarrow>
                          (let ctx5 = ctx4\<lparr>codec_ctx := Some c\<rparr>;
                               w3 = w2\<lparr>codec_contexts := (codec_contexts w2)
                                 (c \<mapsto> \<lparr>av_width = width ctx5, av_height = height ctx5,
                                          pix_fmt = csc_fmt, is_open = False\<rparr>)\<rparr>
                           in (case avcodec_open2 l w3 c of
                                 Inl f \<Rightarrow> Inl f
                               | Inr (r, w4) \<Rightarrow>
                                   if r < 0
                                   then Inr (1, ctx5, log_event (Stderr ''could not open codec'') w4)
                                   else Inr (0, ctx5, w4))))))))"

text \<open>\<^verbatim>\<open>init_decoder\<close> returns \<^verbatim>\<open>NULL\<close> when \<^verbatim>\<open>init_decoder_context\<close> fails.\<close>

definition init_decoder ::
  "lib \<Rightarrow> world \<Rightarrow> int \<Rightarrow> int \<Rightarrow> int \<Rightarrow> fault + x264lib_ctx option \<times> world" where
  "init_decoder l w w0 h0 csc_fmt =
     (case init_decoder_context l (zeroed_ctx, w) w0 h0 csc_fmt of
        Inl f \<Rightarrow> Inl f
      | Inr (r, ctx, w1) \<Rightarrow> if r \<noteq> 0 then Inr (None, w1) else Inr (Some ctx, w1))"

definition clean_decoder :: "x264lib_ctx \<times> world \<Rightarrow> x264lib_ctx \<times> world" where
  "clean_decoder s =
     (case s of (ctx, w) \<Rightarrow>
       (case (case codec_ctx ctx of None \<Rightarrow> (ctx, w)
              | Some c \<Rightarrow> (ctx\<lparr>codec_ctx := None\<rparr>, avcodec_close_free w c)) of
         (ctx1, w1) \<Rightarrow>
           (case yuv2rgb ctx1 of None \<Rightarrow> (ctx1, w1)
            | Some h \<Rightarrow> (ctx1\<lparr>yuv2rgb := None\<rparr>, sws_freeContext w1 h))))"

definition set_decoder_csc_format ::
  "lib \<Rightarrow> x264lib_ctx \<times> world \<Rightarrow> int \<Rightarrow> fault + x264lib_ctx \<times> world" where
  "set_decoder_csc_format l s csc_fmt0 =
     (case s of (ctx, w) \<Rightarrow>
       (let csc_fmt = (if csc_fmt0 < 0 then PIX_FMT_YUV420P l else csc_fmt0)
        in if csc_format ctx \<noteq> csc_fmt
           then
             (case clean_decoder (ctx, w) of
                (ctx1, w1) \<Rightarrow>
                  (case init_decoder_context l (ctx1, w1) (width ctx1) (height ctx1) csc_fmt of
                     Inl f \<Rightarrow> Inl f
                   | Inr (r, ctx2, w2) \<Rightarrow>
                       if r \<noteq> 0
                       then Inr (ctx2, log_event (Stderr ''Failed to reconfigure decoder'') w2)
                       else Inr (ctx2, w2)))
           else Inr (ctx, w)))"

text \<open>The three out-parameters of \<^verbatim>\<open>decompress_image\<close>: \<^verbatim>\<open>(*out)[3]\<close>, \<^verbatim>\<open>*outsize\<close> and
  \<^verbatim>\<open>(*outstride)[3]\<close>.\<close>

record decode_out =
  out_planes :: "ptr option list"
  outsize :: int
  outstride :: "int list"

text \<open>The loop \<^verbatim>\<open>for (i = 0; i < 3; i++)\<close> of \<^verbatim>\<open>decompress_image\<close>, over the indices left.\<close>

fun copy_planes :: "int \<Rightarrow> AVFrame \<Rightarrow> nat list \<Rightarrow> decode_out \<Rightarrow> decode_out" where
  "copy_planes h pic [] d = d"
| "copy_planes h pic (i # is) d =
     copy_planes h pic is
       (d\<lparr>out_planes := (out_planes d)[i := data pic ! i],
          outsize := outsize d + h * (linesize pic ! i),
          outstride := (outstride d)[i := linesize pic ! i]\<rparr>)"

text \<open>\<^verbatim>\<open>decompress_image\<close>; \<open>d\<close> holds what the caller had in the out-parameters
  (x264lib.c adds to \<^verbatim>\<open>*outsize\<close> without setting it first). The engine answers
  \<^verbatim>\<open>len\<close>, \<^verbatim>\<open>got_picture\<close> and the picture, which \<^verbatim>\<open>avcodec_get_frame_defaults\<close> cleared
  before the call; the code does not read \<^verbatim>\<open>got_picture\<close>.\<close>

definition decompress_image ::
  "lib \<Rightarrow> x264lib_ctx \<times> world \<Rightarrow> nat list \<Rightarrow> decode_out \<Rightarrow> fault + int \<times> decode_out \<times> world" where
  "decompress_image l s inbuf d =
     (case s of (ctx, w) \<Rightarrow>
       (case codec_ctx ctx of
          None \<Rightarrow> Inr (1, d, w)
        | Some c \<Rightarrow>
            if codec ctx = None then Inr (1, d, w)
            else
              (case codec_contexts w c of
                 None \<Rightarrow> Inl DANGLING_POINTER
               | Some cc \<Rightarrow>
                   (case avcodec_decode_video2_result l cc inbuf of
                      (len, got_picture, picture) \<Rightarrow>
                        (let w1 = log_event (Avcodec_decode_video2 c) w
                         in if len < 0
                            then Inr (2, d\<lparr>out_planes := [None, None, None]\<rparr>,
                                   log_event (Stderr ''Error while decoding frame'') w1)
                            else
                              (let d1 = copy_planes (height ctx) picture [0, 1, 2] d
                               in if outsize d1 = 0
                                  then Inr (3, d1,
                                         log_event
                                           (Stderr ''Decoded image, size %d %d %d, ptr %p %p %p'') w1)
                                  else Inr (0, d1, w1)))))))"

section \<open>vpxlib.c\<close>

text \<open>The VP8 variant keeps its engine inside the context; what the engine answers for
  a call is the parameter \<open>e\<close>. \<open>images\<close> holds the live image buffers, which
  \<^verbatim>\<open>vpx_img_free\<close> releases, and \<open>stdout\<close> the first argument of every \<^verbatim>\<open>codec_error\<close>
  line. The two functions below read nothing of \<^verbatim>\<open>struct vpx_context\<close> but the engine.\<close>

datatype vpx_codec_cx_pkt_kind =
  VPX_CODEC_CX_FRAME_PKT | VPX_CODEC_STATS_PKT | VPX_CODEC_PSNR_PKT

record vpx_codec_cx_pkt_t =
  kind :: vpx_codec_cx_pkt_kind
  frame_buf :: "ptr option"
  frame_sz :: int

record vpx_image_t =
  planes :: "ptr option list"
  stride :: "int list"
  img_h :: int
  x_chroma_shift :: int
  y_chroma_shift :: int
  bps :: int

record vpx_engine =
  vpx_codec_encode_result :: "vpx_image_t \<Rightarrow> int"
  vpx_codec_get_cx_data_result :: "vpx_image_t \<Rightarrow> vpx_codec_cx_pkt_t option"
  vpx_codec_decode_result :: "nat list \<Rightarrow> int"
  vpx_codec_get_frame_result :: "nat list \<Rightarrow> vpx_image_t option"

record vpx_world =
  images :: "ptr \<rightharpoonup> vpx_image_t"
  stdout :: "string list"

definition codec_error :: "vpx_world \<Rightarrow> string \<Rightarrow> vpx_world" where
  "codec_error w s = w\<lparr>stdout := stdout w @ [s]\<rparr>"

definition vpx_img_free :: "vpx_world \<Rightarrow> ptr \<Rightarrow> vpx_world" where
  "vpx_img_free w img = w\<lparr>images := (images w)(img := None)\<rparr>"

text \<open>\<^verbatim>\<open>compress_image\<close> of vpxlib.c.\<close>

definition compress_image_vpx ::
  "vpx_engine \<Rightarrow> vpx_world \<Rightarrow> ptr \<Rightarrow> ptr option \<times> int
     \<Rightarrow> fault + int \<times> (ptr option \<times> int) \<times> vpx_world" where
  "compress_image_vpx e w imagep out0 =
     (case images w imagep of
        None \<Rightarrow> Inl DANGLING_POINTER
      | Some img0 \<Rightarrow>
          (let img = img0\<lparr>x_chroma_shift := 0, y_chroma_shift := 0, bps := 8\<rparr>;
               w1 = w\<lparr>images := (images w)(imagep \<mapsto> img)\<rparr>;
               i = vpx_codec_encode_result e img
           in if i \<noteq> 0
              then Inr (i, out0, vpx_img_free (codec_error w1 ''vpx_codec_encode'') imagep)
              else
                (case vpx_codec_get_cx_data_result e img of
                   None \<Rightarrow> Inl NULL_POINTER
                 | Some pkt \<Rightarrow>
                     if kind pkt \<noteq> VPX_CODEC_CX_FRAME_PKT
                     then Inr (1, out0, vpx_img_free w1 imagep)
                     else Inr (0, (frame_buf pkt, frame_sz pkt), vpx_img_free w1 imagep))))"

fun copy_planes_vpx :: "vpx_image_t \<Rightarrow> nat list \<Rightarrow> decode_out \<Rightarrow> decode_out" where
  "copy_planes_vpx img [] d = d"
| "copy_planes_vpx img (i # is) d =
     copy_planes_vpx img is
       (d\<lparr>out_planes := (out_planes d)[i := planes img ! i],
          outstride := (outstride d)[i := stride img ! i],
          outsize := outsize d + (stride img ! i) * img_h img\<rparr>)"

text \<open>\<^verbatim>\<open>decompress_image\<close> of vpxlib.c.\<close>

definition decompress_image_vpx ::
  "vpx_engine \<Rightarrow> vpx_world \<Rightarrow> nat list \<Rightarrow> decode_out \<Rightarrow> int \<times> decode_out \<times> vpx_world" where
  "decompress_image_vpx e w inbuf d =
     (if vpx_codec_decode_result e inbuf \<noteq> 0
      then (- 1, d, codec_error w ''vpx_codec_decode'')
      else
        (case vpx_codec_get_frame_result e inbuf of
           None \<Rightarrow> (- 1, d, codec_error w ''vpx_codec_get_frame'')
         | Some img \<Rightarrow>
             (0, copy_planes_vpx img [0, 1, 2] (d\<lparr>outsize := 0\<rparr>), w)))"

section \<open>The specification's formulas\<close>

text \<open>The quantizer of the specification: \<open>round(Q_MAX - qualityPct * (Q_MAX - Q_MIN) / 100)\<close>
  with \<open>Q_MIN = 1\<close> and \<open>Q_MAX = 50\<close>, in exact arithmetic.\<close>

definition spec_quantizer :: "int \<Rightarrow> int" where
  "spec_quantizer pct = round (50 - of_int pct * (50 - 1) / 100 :: rat)"

text \<open>The preset index of the specification:
  \<open>presetIndex = 7 - clamp(round(speedPct / 12.5), 0, 7)\<close>.\<close>

definition spec_preset_index :: "int \<Rightarrow> int" where
  "spec_preset_index pct = 7 - max 0 (min 7 (round (of_int pct / (25 / 2) :: rat)))"

text \<open>The pairing of profile and chroma-sampling format the specification asks for:
  4:2:0 with the baseline profile, 4:2:2 with the profile supporting 4:2:2, 4:4:4 with
  the profile supporting 4:4:4 predictive coding.\<close>

definition profile_matches_sampling :: "lib \<Rightarrow> x264lib_ctx \<Rightarrow> bool" where
  "profile_matches_sampling l ctx =
     ((colour_sampling ctx = X264_CSP_I420 l \<and> profile ctx = Some PROFILE_BASELINE)
      \<or> (colour_sampling ctx = X264_CSP_I422 l \<and> profile ctx = Some PROFILE_HIGH422)
      \<or> (colour_sampling ctx = X264_CSP_I444 l
          \<and> profile ctx = Some PROFILE_HIGH444_PREDICTIVE))"

section \<open>Sample libraries and states\<close>

text \<open>A library in which every call succeeds, for the closed examples below. Its
  constants are sample values, pairwise distinct within each family as the headers'
  are.\<close>

definition sample_lib :: lib where
  "sample_lib = \<lparr>X264_CSP_I420 = 1, X264_CSP_I422 = 4, X264_CSP_I444 = 7,
     PIX_FMT_YUV420P = 0, PIX_FMT_YUV422P = 4, PIX_FMT_YUV444P = 5, PIX_FMT_RGB24 = 2,
     SWS_SINC = 256, SWS_ACCURATE_RND = 262144,
     x264_param_default = \<lparr>param_preset = None, param_tune = None, param_profile = None,
       i_threads = 0, i_width = 0, i_height = 0, i_csp = 1, f_rf_constant = 23,
       i_log_level = 2\<rparr>,
     x264_encoder_open_ok = (\<lambda>_. True),
     x264_encoder_encode_result = (\<lambda>_ _. (0, None)),
     sws_getContext_ok = (\<lambda>_. True),
     avcodec_find_decoder_result = Some 0,
     avcodec_open2_ok = (\<lambda>_. True),
     avcodec_decode_video2_result =
       (\<lambda>_ _. (0, 0, \<lparr>data = [None, None, None], linesize = [0, 0, 0]\<rparr>))\<rparr>"

text \<open>The same library with a decoder that cannot be opened for 4:4:4.\<close>

definition lib_no_444 :: lib where
  "lib_no_444 =
     sample_lib\<lparr>avcodec_open2_ok := (\<lambda>cc. pix_fmt cc \<noteq> PIX_FMT_YUV444P sample_lib)\<rparr>"

text \<open>The same library with a converter that cannot be built for 4:4:4.\<close>

definition lib_no_444_converter :: lib where
  "lib_no_444_converter =
     sample_lib\<lparr>sws_getContext_ok := (\<lambda>c. srcFormat c \<noteq> PIX_FMT_YUV444P sample_lib)\<rparr>"

definition empty_world :: world where
  "empty_world = \<lparr>next_ptr = 1, encoders = Map.empty, sws_contexts = Map.empty,
     codec_contexts = Map.empty, pictures = Map.empty, trace = []\<rparr>"

definition empty_out :: decode_out where
  "empty_out = \<lparr>out_planes = [None, None, None], outsize = 0, outstride = [0, 0, 0]\<rparr>"

definition sample_image :: vpx_image_t where
  "sample_image = \<lparr>planes = [Some 10, Some 11, Some 12], stride = [640, 320, 320],
     img_h = 480, x_chroma_shift = 1, y_chroma_shift = 1, bps = 12\<rparr>"

text \<open>A VP8 engine whose encoder and decoder both report an error.\<close>

definition failing_vpx_engine :: vpx_engine where
  "failing_vpx_engine = \<lparr>vpx_codec_encode_result = (\<lambda>_. 1),
     vpx_codec_get_cx_data_result = (\<lambda>_. None),
     vpx_codec_decode_result = (\<lambda>_. 1),
     vpx_codec_get_frame_result = (\<lambda>_. None)\<rparr>"

text \<open>A VP8 engine whose decoder accepts the data and has no frame to give.\<close>

definition no_frame_vpx_engine :: vpx_engine where
  "no_frame_vpx_engine = \<lparr>vpx_codec_encode_result = (\<lambda>_. 0),
     vpx_codec_get_cx_data_result = (\<lambda>_. None),
     vpx_codec_decode_result = (\<lambda>_. 0),
     vpx_codec_get_frame_result = (\<lambda>_. None)\<rparr>"

text \<open>The same library with a decoder that reports an error for every packet.\<close>

definition lib_decode_error :: lib where
  "lib_decode_error =
     lib_no_444\<lparr>avcodec_decode_video2_result :=
       (\<lambda>_ _. (- 1, 0, \<lparr>data = [None, None, None], linesize = [0, 0, 0]\<rparr>))\<rparr>"

text \<open>The sample encoder: opened at quality 50, with chroma switching enabled.\<close>

definition sample_encoder :: "x264lib_ctx \<times> world" where
  "sample_encoder = init_encoder sample_lib empty_world 640 480 50 1"

text \<open>An encoder opened at quality 95 with chroma switching disabled.\<close>

definition sample_encoder_fixed_chroma :: "x264lib_ctx \<times> world" where
  "sample_encoder_fixed_chroma = init_encoder sample_lib empty_world 640 480 95 0"

text \<open>The sample decoder: opened for 4:2:0 with the library that cannot open 4:4:4, and
  the state \<^verbatim>\<open>set_decoder_csc_format\<close> leaves it in when asked for 4:4:4.\<close>

definition sample_decoder :: "x264lib_ctx \<times> world" where
  "sample_decoder =
     (case init_decoder lib_no_444 empty_world 640 480 (PIX_FMT_YUV420P lib_no_444) of
        Inr (Some ctx, w) \<Rightarrow> (ctx, w)
      | Inr (None, w) \<Rightarrow> (zeroed_ctx, w)
      | Inl f \<Rightarrow> (zeroed_ctx, empty_world))"

definition sample_decoder_failed :: "x264lib_ctx \<times> world" where
  "sample_decoder_failed =
     (case set_decoder_csc_format lib_no_444 sample_decoder (PIX_FMT_YUV444P lib_no_444) of
        Inr s \<Rightarrow> s
      | Inl f \<Rightarrow> sample_decoder)"

text \<open>The state \<^verbatim>\<open>set_decoder_csc_format\<close> leaves the sample decoder in when it is asked for
  4:4:4 with the library that cannot build the converter for it.\<close>

definition sample_decoder_no_converter :: "x264lib_ctx \<times> world" where
  "sample_decoder_no_converter =
     (case set_decoder_csc_format lib_no_444_converter sample_decoder
             (PIX_FMT_YUV444P lib_no_444_converter) of
        Inr s \<Rightarrow> s
      | Inl f \<Rightarrow> sample_decoder)"

text \<open>The codec context a decoder context points to, if it points to a live one.\<close>

definition codec_state :: "x264lib_ctx \<times> world \<Rightarrow> AVCodecContext option" where
  "codec_state s =
     (case s of (ctx, w) \<Rightarrow>
       (case codec_ctx ctx of None \<Rightarrow> None | Some c \<Rightarrow> codec_contexts w c))"

text \<open>The lines a state has written to \<^verbatim>\<open>stderr\<close>, in order.\<close>

definition stderr_lines :: "world \<Rightarrow> string list" where
  "stderr_lines w = concat (map (\<lambda>e. case e of Stderr s \<Rightarrow> [s] | _ \<Rightarrow> []) (trace w))"

section \<open>Rounding lemmas\<close>

lemma bitlen_powi_bounds:
  assumes "0 < a"
  shows "(2::rat) powi (bitlen a - 1) \<le> of_int a" and "of_int a < (2::rat) powi (bitlen a)"
proof -
  from bitlen_bounds [OF assms]
  have lo: "2 ^ nat (bitlen a - 1) \<le> a" and hi: "a < 2 ^ nat (bitlen a)" by simp_all
  have pos: "1 \<le> bitlen a" using assms by (simp add: bitlen_alt_def)
  have "(of_int (2 ^ nat (bitlen a - 1)) :: rat) \<le> of_int a"
    using lo by (simp only: of_int_le_iff)
  then show "(2::rat) powi (bitlen a - 1) \<le> of_int a"
    using pos by (simp add: power_int_def)
  have "(of_int a :: rat) < of_int (2 ^ nat (bitlen a))"
    using hi by (simp only: of_int_less_iff)
  then show "of_int a < (2::rat) powi (bitlen a)"
    using pos by (simp add: power_int_def)
qed

lemma powi2_less_imp_less:
  assumes "(2::rat) powi m < 2 powi n"
  shows "m < n"
proof (rule ccontr)
  assume "\<not> m < n"
  then have "n \<le> m" by simp
  then have "(2::rat) powi n \<le> 2 powi m" by (intro power_int_increasing) simp_all
  with assms show False by simp
qed

lemma ilog2_bounds:
  assumes "q \<noteq> 0"
  shows "2 powi (ilog2 q) \<le> \<bar>q\<bar>" and "\<bar>q\<bar> < 2 powi (ilog2 q + 1)"
proof -
  obtain a b where ab: "quotient_of \<bar>q\<bar> = (a, b)" by (cases "quotient_of \<bar>q\<bar>")
  have b: "0 < b" using ab by (rule quotient_of_denom_pos)
  have q: "\<bar>q\<bar> = of_int a / of_int b" using ab by (rule quotient_of_div)
  have "0 < \<bar>q\<bar>" using assms by simp
  then have a: "0 < a" using b unfolding q by (simp add: zero_less_divide_iff)
  define d where "d = bitlen a - bitlen b"
  note A = bitlen_powi_bounds [OF a] and B = bitlen_powi_bounds [OF b]
  have bpos: "(0::rat) < of_int b" using b by simp
  have "\<bar>q\<bar> < 2 powi (bitlen a) / 2 powi (bitlen b - 1)"
    unfolding q using A(2) B(1) a
    by (intro frac_less) simp_all
  also have "\<dots> = 2 powi (d + 1)"
    by (simp add: d_def power_int_diff [symmetric] algebra_simps)
  finally have up: "\<bar>q\<bar> < 2 powi (d + 1)" .
  have "2 powi (bitlen a - 1) / 2 powi (bitlen b) < \<bar>q\<bar>"
    unfolding q using A(1) B(2) bpos
    by (intro frac_less2) simp_all
  also have "2 powi (bitlen a - 1) / 2 powi (bitlen b) = (2::rat) powi (d - 1)"
    by (simp add: d_def power_int_diff [symmetric] algebra_simps)
  finally have lo: "2 powi (d - 1) < \<bar>q\<bar>" .
  have e: "ilog2 q = (if 2 powi d \<le> \<bar>q\<bar> then d else d - 1)"
    by (simp add: ilog2_def ab d_def Let_def)
  show "2 powi (ilog2 q) \<le> \<bar>q\<bar>" using lo by (simp add: e less_imp_le)
  show "\<bar>q\<bar> < 2 powi (ilog2 q + 1)" using up by (simp add: e not_le)
qed

lemma ilog2_less:
  assumes "q \<noteq> 0" and "\<bar>q\<bar> < 2 powi n"
  shows "ilog2 q < n"
proof -
  from ilog2_bounds(1) [OF assms(1)] assms(2)
  have "(2::rat) powi (ilog2 q) < 2 powi n" by simp
  then show ?thesis by (rule powi2_less_imp_less)
qed

lemma rint_error: "\<bar>of_int (rint r) - r\<bar> \<le> 1 / 2"
proof -
  have "of_int \<lfloor>r\<rfloor> \<le> r" "r < of_int \<lfloor>r\<rfloor> + 1" by linarith+
  then show ?thesis by (auto simp: rint_def Let_def)
qed

lemma rint_of_int [simp]: "rint (of_int m) = m"
  by (simp add: rint_def)

lemma rnd_zero [simp]: "rnd p 0 = 0"
  by (simp add: rnd_def)

lemma rnd_error:
  assumes "q \<noteq> 0"
  shows "\<bar>rnd p q - q\<bar> \<le> 2 powi (ilog2 q - int p)"
proof -
  define e where "e = ilog2 q - (int p - 1)"
  have pos: "(0::rat) < 2 powi e" by simp
  have "rnd p q - q = (of_int (rint (q / 2 powi e)) - q / 2 powi e) * 2 powi e"
    using assms pos by (simp add: rnd_def e_def Let_def algebra_simps)
  then have "\<bar>rnd p q - q\<bar> = \<bar>of_int (rint (q / 2 powi e)) - q / 2 powi e\<bar> * 2 powi e"
    by (simp add: abs_mult)
  also have "\<dots> \<le> 1 / 2 * 2 powi e"
    by (intro mult_right_mono rint_error) simp
  also have "\<dots> = 2 powi (ilog2 q - int p)"
    by (simp add: e_def power_int_diff power_int_add algebra_simps)
  finally show ?thesis .
qed

text \<open>The error of one rounding of a value below \<open>2 ^ n\<close> in magnitude.\<close>

lemma rnd_error_bound:
  assumes "\<bar>q\<bar> < 2 ^ n"
  shows "\<bar>rnd p q - q\<bar> \<le> 2 ^ n / 2 ^ (p + 1)"
proof (cases "q = 0")
  case True then show ?thesis by simp
next
  case False
  have "\<bar>q\<bar> < 2 powi (int n)" using assms by simp
  from ilog2_less [OF False this] have "ilog2 q - int p \<le> int n - (int p + 1)" by simp
  then have "(2::rat) powi (ilog2 q - int p) \<le> 2 powi (int n - (int p + 1))"
    by (intro power_int_increasing) simp_all
  also have "\<dots> = 2 ^ n / 2 ^ (p + 1)"
    by (simp add: power_int_diff power_int_add)
  finally show ?thesis using rnd_error [OF False, of p] by simp
qed

text \<open>A value with a \<open>p\<close>-bit significand is not changed by rounding.\<close>

lemma rnd_exact:
  assumes "\<bar>m\<bar> < 2 ^ p"
  shows "rnd p (of_int m * 2 powi k) = of_int m * 2 powi k"
proof (cases "m = 0")
  case True then show ?thesis by simp
next
  case False
  define q :: rat where "q = of_int m * 2 powi k"
  have q0: "q \<noteq> 0" using False by (simp add: q_def)
  define e where "e = ilog2 q - (int p - 1)"
  have "\<bar>q\<bar> = of_int \<bar>m\<bar> * 2 powi k" by (simp add: q_def abs_mult)
  also have "\<dots> < of_int (2 ^ p) * 2 powi k"
    using assms
    by (intro mult_strict_right_mono)
      (simp_all only: of_int_less_iff zero_less_power_int zero_less_numeral)
  also have "\<dots> = 2 powi (int p + k)" by (simp add: power_int_add)
  finally have "\<bar>q\<bar> < 2 powi (int p + k)" .
  from ilog2_less [OF q0 this] have ek: "0 \<le> k - e" by (simp add: e_def)
  have "q / 2 powi e = of_int m * 2 powi (k - e)"
    by (simp add: q_def power_int_diff)
  also have "\<dots> = of_int (m * 2 ^ nat (k - e))"
    using ek by (simp add: power_int_def)
  finally have "rint (q / 2 powi e) = m * 2 ^ nat (k - e)" by (simp only: rint_of_int)
  then have "rnd p q = of_int (m * 2 ^ nat (k - e)) * 2 powi e"
    using q0 by (simp add: rnd_def e_def Let_def)
  also have "\<dots> = of_int m * (2 powi (k - e) * 2 powi e)"
    using ek by (simp add: power_int_def)
  also have "2 powi (k - e) * 2 powi e = (2::rat) powi k"
    by (simp add: power_int_add [symmetric])
  finally show ?thesis by (simp add: q_def)
qed

lemma rnd_of_int:
  assumes "\<bar>m\<bar> < 2 ^ p"
  shows "rnd p (of_int m) = of_int m"
  using rnd_exact [OF assms, of 0] by simp

lemma rnd_half:
  assumes "\<bar>m\<bar> < 2 ^ p"
  shows "rnd p (of_int m / 2) = of_int m / 2"
  using rnd_exact [OF assms, of "-1"] by simp

lemma abs_diff_leD:
  fixes x y d :: rat
  assumes "\<bar>y - x\<bar> \<le> d"
  shows "x - d \<le> y" and "y \<le> x + d"
  using assms by linarith+

text \<open>A value whose distance to every integer is at least a hundredth has the floor of
  every value \<open>2 ^ -18\<close> close to it.\<close>

lemma floor_near:
  fixes x y :: rat
  assumes "x = of_int k + of_int r / 100" and "1 \<le> r" and "r \<le> 99"
    and "\<bar>y - x\<bar> \<le> 1 / 2 ^ 18"
  shows "\<lfloor>y\<rfloor> = k"
proof (rule floor_unique)
  have r': "(1::rat) \<le> of_int r" "(of_int r :: rat) \<le> 99"
    using assms(2,3) by linarith+
  note d = abs_diff_leD [OF assms(4)]
  show "of_int k \<le> y" using d(1) r'(1) unfolding assms(1) by simp
  show "y < of_int k + 1" using d(2) r'(2) unfolding assms(1) by simp
qed

section \<open>The quantizer\<close>

text \<open>The four roundings of \<^verbatim>\<open>get_x264_quality\<close> move the exact value
  \<open>50 - c * 49 / 100\<close> by less than \<open>2 ^ -18\<close>, and not at all at \<open>c = 50\<close>, the one
  percentage whose exact value \<open>25.5\<close> lies halfway between two integers.\<close>

lemma quality_chain:
  fixes c :: int
  assumes c: "0 \<le> c" "c \<le> 100"
  defines "x \<equiv> 50 - of_int c * 49 / 100"
  defines "y \<equiv> rnd 24 (rnd 53 (50 - rnd 53 (rnd 53 (of_int c * 49) / 100)))"
  shows "\<bar>y - x\<bar> \<le> 1 / 2 ^ 18" and "c = 50 \<Longrightarrow> y = x"
proof -
  have "\<bar>c * 49\<bar> < 2 ^ 53" using c by simp
  from rnd_of_int [OF this] have y1: "rnd 53 (of_int c * 49) = of_int c * 49"
    by simp
  define q2 :: rat where "q2 = of_int c * 49 / 100"
  define y2 where "y2 = rnd 53 q2"
  define y3 where "y3 = rnd 53 (50 - y2)"
  have y: "y = rnd 24 y3" unfolding y_def y1 y3_def y2_def q2_def ..
  have q2b: "0 \<le> q2" "q2 \<le> 49" using c by (simp_all add: q2_def)
  then have "\<bar>q2\<bar> < 2 ^ 6" by simp
  from rnd_error_bound [OF this, of 53] have e2: "\<bar>y2 - q2\<bar> \<le> 2 ^ 6 / 2 ^ 54"
    by (simp add: y2_def)
  have "\<bar>50 - y2\<bar> < 2 ^ 6" using e2 q2b by (simp add: abs_if split: if_splits)
  from rnd_error_bound [OF this, of 53] have e3: "\<bar>y3 - (50 - y2)\<bar> \<le> 2 ^ 6 / 2 ^ 54"
    by (simp add: y3_def)
  have "\<bar>y3\<bar> < 2 ^ 6" using e2 e3 q2b by (simp add: abs_if split: if_splits)
  from rnd_error_bound [OF this, of 24] have e4: "\<bar>y - y3\<bar> \<le> 2 ^ 6 / 2 ^ 25"
    by (simp add: y)
  have x: "x = 50 - q2" by (simp add: x_def q2_def)
  show "\<bar>y - x\<bar> \<le> 1 / 2 ^ 18"
    using e2 e3 e4 unfolding x by (simp add: abs_if split: if_splits)
  show "y = x" if "c = 50"
  proof -
    have r1: "rnd 53 (49 / 2) = 49 / 2" using rnd_half [of 49 53] by simp
    have r2: "rnd 53 (51 / 2) = 51 / 2" using rnd_half [of 51 53] by simp
    have r3: "rnd 24 (51 / 2) = 51 / 2" using rnd_half [of 51 24] by simp
    have s1: "q2 = 49 / 2" using that by (simp add: q2_def)
    have s2: "50 - 49 / 2 = (51 / 2 :: rat)" by simp
    have "y = 51 / 2" by (simp only: y y3_def y2_def s1 r1 s2 r2 r3)
    then show ?thesis using that by (simp add: x_def)
  qed
qed

lemma get_x264_quality_clamped:
  "get_x264_quality pct = get_x264_quality (max 0 (min 100 pct))"
  by (simp add: get_x264_quality_def MIN_macro_def MAX_macro_def)

lemma get_x264_quality_in_range:
  assumes c: "0 \<le> c" "c \<le> 100"
  shows "get_x264_quality c = of_int (round (50 - of_int c * 49 / 100 :: rat))"
proof -
  define x :: rat where "x = 50 - of_int c * 49 / 100"
  define y where "y = rnd 24 (rnd 53 (50 - rnd 53 (rnd 53 (of_int c * 49) / 100)))"
  have ch1: "\<bar>y - x\<bar> \<le> 1 / 2 ^ 18"
    unfolding x_def y_def by (rule quality_chain(1) [OF c])
  have ch2: "y = x" if "c = 50"
    unfolding x_def y_def by (rule quality_chain(2) [OF c that])
  have xb: "1 \<le> x" using c by (simp add: x_def)
  have ypos: "0 \<le> y" using abs_diff_leD(1) [OF ch1] xb by simp
  have cl: "MIN_macro 100 (MAX_macro 0 c) = c"
    using c by (simp add: MIN_macro_def MAX_macro_def)
  have g: "get_x264_quality c = of_int \<lfloor>y + 1 / 2\<rfloor>"
    unfolding get_x264_quality_def cl roundf_def to_float_def to_double_def y_def [symmetric]
    using ypos by simp
  have "\<lfloor>y + 1 / 2\<rfloor> = \<lfloor>x + 1 / 2\<rfloor>"
  proof (cases "c = 50")
    case True with ch2 show ?thesis by simp
  next
    case False
    define n where "n = 5050 - 49 * c"
    have "n mod 100 \<noteq> 0"
    proof
      assume "n mod 100 = 0"
      then have "100 dvd n" by (simp add: dvd_eq_mod_eq_0)
      then have "100 dvd 49 * n - 100 * (2474 - 24 * c)" by (simp add: dvd_diff)
      also have "49 * n - 100 * (2474 - 24 * c) = 50 - c" by (simp add: n_def)
      finally have "100 dvd 50 - c" .
      then obtain k where k: "50 - c = 100 * k" by (rule dvdE)
      with c have "k = 0" by linarith
      with k False show False by simp
    qed
    then have r: "1 \<le> n mod 100" "n mod 100 \<le> 99"
      using pos_mod_bound [of 100 n] pos_mod_sign [of 100 n] by linarith+
    have "n = n div 100 * 100 + n mod 100" by simp
    then have "(of_int n :: rat) = of_int (n div 100) * 100 + of_int (n mod 100)"
      by (metis of_int_add of_int_mult of_int_numeral)
    moreover have "x + 1 / 2 = of_int n / 100" by (simp add: x_def n_def)
    ultimately have xs: "x + 1 / 2 = of_int (n div 100) + of_int (n mod 100) / 100"
      by simp
    have d: "\<bar>(y + 1 / 2) - (x + 1 / 2)\<bar> \<le> 1 / 2 ^ 18" using ch1 by simp
    have d0: "\<bar>(x + 1 / 2) - (x + 1 / 2)\<bar> \<le> 1 / 2 ^ 18" by simp
    have fx: "\<lfloor>x + 1 / 2\<rfloor> = n div 100" by (rule floor_near [OF xs r d0])
    have fy: "\<lfloor>y + 1 / 2\<rfloor> = n div 100" by (rule floor_near [OF xs r d])
    show ?thesis by (simp only: fx fy)
  qed
  then show ?thesis by (simp only: g round_def x_def)
qed

lemma get_x264_quality_spec:
  assumes "0 \<le> pct" "pct \<le> 100"
  shows "get_x264_quality pct = of_int (spec_quantizer pct)"
  using get_x264_quality_in_range [OF assms] by (simp add: spec_quantizer_def)

lemma spec_quantizer_bounds:
  assumes "0 \<le> pct" "pct \<le> 100"
  shows "1 \<le> spec_quantizer pct" and "spec_quantizer pct \<le> 50"
proof -
  define x :: rat where "x = 50 - of_int pct * 49 / 100"
  have "1 \<le> x" "x \<le> 50" using assms by (simp_all add: x_def)
  then have "1 \<le> \<lfloor>x + 1 / 2\<rfloor>" "\<lfloor>x + 1 / 2\<rfloor> \<le> 50"
    by (simp_all add: le_floor_iff floor_le_iff)
  then show "1 \<le> spec_quantizer pct" and "spec_quantizer pct \<le> 50"
    by (simp_all add: spec_quantizer_def round_def x_def)
qed

section \<open>The speed preset\<close>

lemma frac_parts:
  fixes n m :: int
  assumes "0 < m" and "n mod m \<noteq> 0"
  shows "of_int (n div m) + 1 / of_int m \<le> (of_int n / of_int m :: rat)"
    and "(of_int n / of_int m :: rat) + 1 / of_int m \<le> of_int (n div m) + 1"
proof -
  have r: "1 \<le> n mod m" "n mod m + 1 \<le> m"
    using assms pos_mod_bound [of m n] pos_mod_sign [of m n] by linarith+
  have m: "(0::rat) < of_int m" using assms(1) by simp
  have "n = n div m * m + n mod m" by simp
  then have "(of_int n :: rat) = of_int (n div m) * of_int m + of_int (n mod m)"
    by (metis of_int_add of_int_mult)
  then have e: "(of_int n / of_int m :: rat) = of_int (n div m) + of_int (n mod m) / of_int m"
    using m by (simp add: field_simps)
  have r': "(1::rat) \<le> of_int (n mod m)" "(of_int (n mod m) :: rat) + 1 \<le> of_int m"
    using r by linarith+
  show "of_int (n div m) + 1 / of_int m \<le> (of_int n / of_int m :: rat)"
    unfolding e using r'(1) m by (simp add: divide_le_cancel)
  have "(of_int (n mod m) + 1) / of_int m \<le> (of_int m / of_int m :: rat)"
    using r'(2) m by (simp only: divide_le_cancel) simp
  then show "(of_int n / of_int m :: rat) + 1 / of_int m \<le> of_int (n div m) + 1"
    unfolding e using m by (simp add: add_divide_distrib)
qed

lemma floor_close:
  fixes x y d :: rat
  assumes "of_int k + d \<le> x" and "x + d \<le> of_int k + 1" and "\<bar>y - x\<bar> < d"
  shows "\<lfloor>y\<rfloor> = k"
  by (rule floor_unique) (use assms in linarith)+

lemma new_preset_in_range:
  assumes p: "0 \<le> pct" "pct \<le> 100"
  shows "new_preset pct = 7 - min 7 \<lceil>of_int pct / (25 / 2) :: rat\<rceil>"
proof -
  define x0 :: rat where "x0 = of_int pct / (25 / 2)"
  define x where "x = rnd 53 x0"
  have x0n: "x0 = of_int (2 * pct) / of_int 25" by (simp add: x0_def)
  have x0b: "0 \<le> x0" "x0 \<le> 8" using p by (simp_all add: x0_def)
  then have "\<bar>x0\<bar> < 2 ^ 4" by simp
  from rnd_error_bound [OF this, of 53] have ex: "\<bar>x - x0\<bar> \<le> 2 ^ 4 / 2 ^ 54"
    by (simp add: x_def)
  note dx = abs_diff_leD [OF ex]
  have np: "new_preset pct = int_of_double (rnd 53 (7 - MAX_macro 0 (MIN_macro 7 x)))"
    by (simp add: new_preset_def to_double_def x_def x0_def)
  consider (hi) "88 \<le> pct" | (mult) "pct \<le> 87" "25 dvd pct" | (frac) "pct \<le> 87" "\<not> 25 dvd pct"
    by linarith
  then have main: "new_preset pct = 7 - min 7 \<lceil>x0\<rceil>"
  proof cases
    case hi
    then have "176 / 25 \<le> x0" by (simp add: x0_def)
    with dx(1) have "7 < x" by simp
    then have "new_preset pct = 0"
      by (simp add: np MIN_macro_def MAX_macro_def int_of_double_def)
    moreover have "7 < x0" using \<open>176 / 25 \<le> x0\<close> by simp
    then have "7 < \<lceil>x0\<rceil>" by (simp add: less_ceiling_iff)
    ultimately show ?thesis by simp
  next
    case mult
    from mult(2) obtain j where j: "pct = 25 * j" by (rule dvdE)
    with p mult(1) have jb: "0 \<le> j" "j \<le> 3" by linarith+
    have x0j: "x0 = of_int (2 * j)" by (simp add: x0_def j)
    have "\<bar>2 * j\<bar> < 2 ^ 53" using jb by simp
    from rnd_of_int [OF this] have xj: "x = of_int (2 * j)" by (simp only: x_def x0j)
    have m: "MAX_macro 0 (MIN_macro 7 x) = of_int (2 * j)"
      using jb by (simp add: xj MIN_macro_def MAX_macro_def)
    have "(7::rat) - of_int (2 * j) = of_int (7 - 2 * j)" by simp
    moreover have "\<bar>7 - 2 * j\<bar> < 2 ^ 53" using jb by simp
    ultimately have r: "rnd 53 (7 - of_int (2 * j)) = of_int (7 - 2 * j)"
      using rnd_of_int [of "7 - 2 * j" 53] by (simp only:)
    have "new_preset pct = 7 - 2 * j"
      by (simp only: np m r int_of_double_def floor_of_int ceiling_of_int if_cancel)
    moreover have "\<lceil>x0\<rceil> = 2 * j" by (simp only: x0j ceiling_of_int)
    ultimately show ?thesis using jb by simp
  next
    case frac
    define n where "n = 2 * pct"
    define j where "j = n div 25"
    have "n mod 25 \<noteq> 0"
    proof
      assume "n mod 25 = 0"
      then have "25 dvd n" by (simp add: dvd_eq_mod_eq_0)
      then have "25 dvd 13 * n - 25 * pct" by (simp add: dvd_diff)
      also have "13 * n - 25 * pct = pct" by (simp add: n_def)
      finally show False using frac(2) by simp
    qed
    from frac_parts [of 25 n, OF _ this]
    have f: "of_int j + 1 / 25 \<le> x0" "x0 + 1 / 25 \<le> of_int j + 1"
      by (simp_all add: j_def x0n n_def)
    have jb: "0 \<le> j" "j \<le> 6" using p frac(1) by (simp_all add: j_def n_def)
    have jb': "(0::rat) \<le> of_int j" "(of_int j :: rat) \<le> 6" using jb by linarith+
    have xb: "0 < x" "x < 7" using dx f jb' by simp_all
    have m: "MAX_macro 0 (MIN_macro 7 x) = x"
      using xb by (simp add: MIN_macro_def MAX_macro_def)
    define y where "y = rnd 53 (7 - x)"
    have "\<bar>7 - x\<bar> < 2 ^ 3" using xb by simp
    from rnd_error_bound [OF this, of 53] have ey: "\<bar>y - (7 - x)\<bar> \<le> 2 ^ 3 / 2 ^ 54"
      by (simp add: y_def)
    note dy = abs_diff_leD [OF ey]
    have "\<bar>y - (7 - x0)\<bar> < 1 / 25" using dx dy by (simp add: abs_if)
    moreover have "of_int (6 - j) + 1 / 25 \<le> 7 - x0" using f(2) by simp
    moreover have "7 - x0 + 1 / 25 \<le> of_int (6 - j) + 1" using f(1) by simp
    ultimately have fl: "\<lfloor>y\<rfloor> = 6 - j" by (rule floor_close [rotated 2])
    have "0 \<le> \<lfloor>y\<rfloor>" using fl jb by simp
    then have "0 \<le> y" by (simp only: zero_le_floor)
    then have "new_preset pct = 6 - j" by (simp add: np m y_def [symmetric] int_of_double_def fl)
    moreover have "\<lceil>x0\<rceil> = j + 1"
      by (rule ceiling_unique) (use f in simp_all)
    ultimately show ?thesis using jb by simp
  qed
  then show ?thesis unfolding x0_def .
qed


lemma new_preset_5: "new_preset 5 = 6"
proof -
  have "\<lceil>(5 / (25 / 2) :: rat)\<rceil> = 1" by (rule ceiling_unique) simp_all
  then show ?thesis using new_preset_in_range [of 5] by simp
qed

lemma new_preset_50: "new_preset 50 = 3"
proof -
  have "(of_int 50 / (25 / 2) :: rat) = of_int 4" by simp
  then have "\<lceil>(of_int 50 / (25 / 2) :: rat)\<rceil> = 4" by (simp only: ceiling_of_int)
  then show ?thesis using new_preset_in_range [of 50] by simp
qed

lemma new_preset_100: "new_preset 100 = 0"
proof -
  have "(of_int 100 / (25 / 2) :: rat) = of_int 8" by simp
  then have "\<lceil>(of_int 100 / (25 / 2) :: rat)\<rceil> = 8" by (simp only: ceiling_of_int)
  then show ?thesis using new_preset_in_range [of 100] by simp
qed

lemma new_preset_0: "new_preset 0 = 7"
  using new_preset_in_range [of 0] by simp

lemma spec_preset_index_5: "spec_preset_index 5 = 7"
proof -
  have "\<lfloor>(9 / 10 :: rat)\<rfloor> = 0" by (rule floor_unique) simp_all
  then show ?thesis by (simp add: spec_preset_index_def round_def)
qed

lemma set_encoding_speed_stores:
  assumes "set_encoding_speed l (ctx, w) pct = Inr (ctx', w')"
  shows "encoding_preset ctx' = new_preset pct"
  using assms
  by (auto simp: set_encoding_speed_def Let_def split: sum.splits if_splits)

lemma set_encoding_speed_returns:
  assumes "encoder ctx = Some h" and "encoders w h = Some p"
  shows "\<exists>s'. set_encoding_speed l (ctx, w) pct = Inr s'"
  using assms
  by (auto simp: set_encoding_speed_def Let_def x264_encoder_parameters_def
      x264_encoder_reconfig_def)

section \<open>The encoder context\<close>

lemma q50: "get_x264_quality 50 = 26"
proof -
  have "round (50 - of_int 50 * 49 / 100 :: rat) = 26" by (simp add: round_def)
  then show ?thesis using get_x264_quality_in_range [of 50] by simp
qed

lemma q51: "get_x264_quality 51 = 25"
proof -
  have "\<lfloor>(2551 / 100 :: rat)\<rfloor> = 25" by (rule floor_unique) simp_all
  then have "round (50 - of_int 51 * 49 / 100 :: rat) = 25" by (simp add: round_def)
  then show ?thesis using get_x264_quality_in_range [of 51] by simp
qed

lemma init_encoder_csc_ctx:
  "init_encoder_csc l (ctx, w) = (p, ctx', w') \<Longrightarrow> ctx' = ctx\<lparr>rgb2yuv := None\<rparr>"
  by (auto simp: init_encoder_csc_def split: option.splits prod.splits)

text \<open>What \<^verbatim>\<open>do_init_encoder\<close> leaves in the context.\<close>

lemma do_init_encoder_fields:
  assumes "do_init_encoder l (ctx, w) w0 h0 q sp = (ctx', w')"
  shows "quality ctx' = q" and "supports_csc_option ctx' = sp"
    and "colour_sampling ctx' = get_x264_colour_sampling l ctx' q"
    and "csc_algo ctx' = get_csc_algo_for_quality l q"
    and "x264_quality ctx' = get_x264_quality q"
    and "profile ctx' = Some (get_profile_for_quality q)"
    and "width ctx' = w0" and "height ctx' = h0"
  using assms
  by (auto simp: do_init_encoder_def Let_def get_x264_colour_sampling_def
      split: prod.splits dest!: init_encoder_csc_ctx)

lemma clean_encoder_fields:
  assumes "clean_encoder (ctx, w) = (ctx', w')"
  shows "supports_csc_option ctx' = supports_csc_option ctx"
    and "width ctx' = width ctx" and "height ctx' = height ctx"
  using assms by (auto simp: clean_encoder_def split: option.splits prod.splits)

text \<open>The state in which \<^verbatim>\<open>set_encoding_quality(pct)\<close> finds nothing to do.\<close>

lemma set_encoding_quality_settled:
  assumes "supports_csc_option ctx = 0 \<or> colour_sampling ctx = get_x264_colour_sampling l ctx pct"
    and "(quality ctx AND NOT 1) = (pct AND NOT 1)"
    and "csc_algo ctx = get_csc_algo_for_quality l pct"
  shows "set_encoding_quality l (ctx, w) pct = Inr (ctx, w)"
proof -
  have "ctx\<lparr>csc_algo := get_csc_algo_for_quality l pct\<rparr> = ctx"
    using assms(3) by simp
  then show ?thesis
    using assms by (auto simp: set_encoding_quality_def Let_def)
qed

text \<open>Every state \<^verbatim>\<open>set_encoding_quality(pct)\<close> returns is such a state.\<close>

lemma set_encoding_quality_result:
  assumes "set_encoding_quality l (ctx, w) pct = Inr (ctx', w')"
  shows "supports_csc_option ctx' = 0 \<or> colour_sampling ctx' = get_x264_colour_sampling l ctx' pct"
    and "(quality ctx' AND NOT 1) = (pct AND NOT 1)"
    and "csc_algo ctx' = get_csc_algo_for_quality l pct"
proof -
  consider (hard) "supports_csc_option ctx \<noteq> 0"
      "colour_sampling ctx \<noteq> get_x264_colour_sampling l ctx pct"
    | (soft) "supports_csc_option ctx = 0 \<or> colour_sampling ctx = get_x264_colour_sampling l ctx pct"
    by blast
  then have "(supports_csc_option ctx' = 0 \<or> colour_sampling ctx' = get_x264_colour_sampling l ctx' pct)
    \<and> (quality ctx' AND NOT 1) = (pct AND NOT 1)
    \<and> csc_algo ctx' = get_csc_algo_for_quality l pct"
  proof cases
    case hard
    obtain ctx1 w1 where c: "clean_encoder (ctx, w) = (ctx1, w1)"
      by (cases "clean_encoder (ctx, w)")
    from assms hard c
    have "do_init_encoder l (ctx1, w1) (width ctx1) (height ctx1) pct (supports_csc_option ctx1)
      = (ctx', w')"
      by (simp add: set_encoding_quality_def)
    from do_init_encoder_fields [OF this] show ?thesis by simp
  next
    case soft
    have g: "get_csc_algo_for_quality l pct = SWS_SINC l OR SWS_ACCURATE_RND l"
      by (simp add: get_csc_algo_for_quality_def)
    from assms soft show ?thesis
      by (auto simp: set_encoding_quality_def Let_def get_x264_colour_sampling_def g
          x264_encoder_parameters_def x264_encoder_reconfig_def
          split: if_splits sum.splits option.splits prod.splits dest!: init_encoder_csc_ctx)
  qed
  then show "supports_csc_option ctx' = 0 \<or> colour_sampling ctx' = get_x264_colour_sampling l ctx' pct"
    and "(quality ctx' AND NOT 1) = (pct AND NOT 1)"
    and "csc_algo ctx' = get_csc_algo_for_quality l pct"
    by simp_all
qed

lemma set_encoding_quality_returns:
  assumes "encoder ctx = Some h" and "encoders w h = Some p"
  shows "\<exists>s'. set_encoding_quality l (ctx, w) pct = Inr s'"
  using assms
  by (auto simp: set_encoding_quality_def Let_def x264_encoder_parameters_def
      x264_encoder_reconfig_def split: prod.splits)

text \<open>What \<^verbatim>\<open>set_encoding_quality\<close> does to the chroma format and the profile: a change
  of the chroma format re-initialises both from the new quality, anything else leaves
  both as they are.\<close>

lemma set_encoding_quality_policy:
  assumes "set_encoding_quality l (ctx, w) pct = Inr (ctx', w')"
  shows "supports_csc_option ctx' = supports_csc_option ctx"
    and "supports_csc_option ctx \<noteq> 0 \<Longrightarrow> colour_sampling ctx \<noteq> get_x264_colour_sampling l ctx pct
      \<Longrightarrow> colour_sampling ctx' = get_x264_colour_sampling l ctx' pct
        \<and> profile ctx' = Some (get_profile_for_quality pct)"
    and "supports_csc_option ctx = 0 \<or> colour_sampling ctx = get_x264_colour_sampling l ctx pct
      \<Longrightarrow> colour_sampling ctx' = colour_sampling ctx \<and> profile ctx' = profile ctx"
proof -
  consider (hard) "supports_csc_option ctx \<noteq> 0"
      "colour_sampling ctx \<noteq> get_x264_colour_sampling l ctx pct"
    | (soft) "supports_csc_option ctx = 0 \<or> colour_sampling ctx = get_x264_colour_sampling l ctx pct"
    by blast
  then have "supports_csc_option ctx' = supports_csc_option ctx
    \<and> (supports_csc_option ctx \<noteq> 0 \<and> colour_sampling ctx \<noteq> get_x264_colour_sampling l ctx pct
      \<longrightarrow> colour_sampling ctx' = get_x264_colour_sampling l ctx' pct
        \<and> profile ctx' = Some (get_profile_for_quality pct))
    \<and> (supports_csc_option ctx = 0 \<or> colour_sampling ctx = get_x264_colour_sampling l ctx pct
      \<longrightarrow> colour_sampling ctx' = colour_sampling ctx \<and> profile ctx' = profile ctx)"
  proof cases
    case hard
    obtain ctx1 w1 where c: "clean_encoder (ctx, w) = (ctx1, w1)"
      by (cases "clean_encoder (ctx, w)")
    from assms hard c
    have "do_init_encoder l (ctx1, w1) (width ctx1) (height ctx1) pct (supports_csc_option ctx1)
      = (ctx', w')"
      by (simp add: set_encoding_quality_def)
    from do_init_encoder_fields [OF this] clean_encoder_fields(1) [OF c] hard
    show ?thesis by simp
  next
    case soft
    from assms soft show ?thesis
      by (auto simp: set_encoding_quality_def Let_def
          x264_encoder_parameters_def x264_encoder_reconfig_def
          split: if_splits sum.splits option.splits prod.splits dest!: init_encoder_csc_ctx)
  qed
  then show "supports_csc_option ctx' = supports_csc_option ctx"
    and "supports_csc_option ctx \<noteq> 0 \<Longrightarrow> colour_sampling ctx \<noteq> get_x264_colour_sampling l ctx pct
      \<Longrightarrow> colour_sampling ctx' = get_x264_colour_sampling l ctx' pct
        \<and> profile ctx' = Some (get_profile_for_quality pct)"
    and "supports_csc_option ctx = 0 \<or> colour_sampling ctx = get_x264_colour_sampling l ctx pct
      \<Longrightarrow> colour_sampling ctx' = colour_sampling ctx \<and> profile ctx' = profile ctx"
    by simp_all
qed

text \<open>With chroma switching enabled, the thresholds 80 and 90 pair the format with the
  profile.\<close>

lemma thresholds_pair:
  assumes "supports_csc_option ctx \<noteq> 0"
    and "colour_sampling ctx = get_x264_colour_sampling l ctx q"
    and "profile ctx = Some (get_profile_for_quality q)"
  shows "profile_matches_sampling l ctx"
  using assms
  by (auto simp: profile_matches_sampling_def get_x264_colour_sampling_def
      get_profile_for_quality_def)

text \<open>An encoder opened at quality 50 finds nothing to do for quality 51.\<close>

lemma init_encoder_settled_51:
  "set_encoding_quality l (init_encoder l w w0 h0 50 sp) 51 = Inr (init_encoder l w w0 h0 50 sp)"
proof -
  obtain ctx w1 where i: "init_encoder l w w0 h0 50 sp = (ctx, w1)"
    by (cases "init_encoder l w w0 h0 50 sp")
  then have d: "do_init_encoder l (zeroed_ctx, w) w0 h0 50 sp = (ctx, w1)"
    by (simp add: init_encoder_def)
  note f = do_init_encoder_fields [OF d]
  have "get_x264_colour_sampling l ctx 51 = get_x264_colour_sampling l ctx 50"
    by (simp add: get_x264_colour_sampling_def I422_MIN_QUALITY_def)
  with f(3) have 1: "colour_sampling ctx = get_x264_colour_sampling l ctx 51" by simp
  have 2: "(quality ctx AND NOT 1) = (51 AND NOT 1)" using f(1) by simp
  have 3: "csc_algo ctx = get_csc_algo_for_quality l 51"
    by (simp add: f(4) get_csc_algo_for_quality_def)
  show ?thesis unfolding i
    by (rule set_encoding_quality_settled [OF _ 2 3]) (simp add: 1)
qed

text \<open>The sample encoder: the engine is the object at address 1, its quantizer is 26.\<close>

lemma sample_encoder_state:
  "encoder (fst sample_encoder) = Some 1"
  "map_option f_rf_constant (encoders (snd sample_encoder) 1) = Some 26"
  "rgb2yuv (fst sample_encoder) = Some 2"
  "x264_quality (fst sample_encoder) = 26"
  "supports_csc_option (fst sample_encoder) = 1"
  by (simp_all add: sample_encoder_def init_encoder_def do_init_encoder_def Let_def
      sample_lib_def empty_world_def zeroed_ctx_def x264_encoder_open_def init_encoder_csc_def
      sws_getContext_def log_event_def x264_param_apply_profile_def
      x264_param_default_preset_def q50 split: prod.splits)

lemma sample_encoder_live:
  "\<exists>p. encoder (fst sample_encoder) = Some 1 \<and> encoders (snd sample_encoder) 1 = Some p"
  using sample_encoder_state(1,2) by auto

lemma sample_encoder_set_quality:
  "\<exists>s. set_encoding_quality sample_lib sample_encoder pct = Inr s"
proof -
  from sample_encoder_live obtain p where
    "encoder (fst sample_encoder) = Some 1" "encoders (snd sample_encoder) 1 = Some p" by blast
  from set_encoding_quality_returns [OF this] show ?thesis by simp
qed

lemma sample_encoder_fixed_chroma_state:
  "encoder (fst sample_encoder_fixed_chroma) = Some 1"
  "\<exists>p. encoders (snd sample_encoder_fixed_chroma) 1 = Some p"
  "supports_csc_option (fst sample_encoder_fixed_chroma) = 0"
  "colour_sampling (fst sample_encoder_fixed_chroma) = 1"
  "profile (fst sample_encoder_fixed_chroma) = Some PROFILE_HIGH444_PREDICTIVE"
  by (simp_all add: sample_encoder_fixed_chroma_def init_encoder_def do_init_encoder_def Let_def
      sample_lib_def empty_world_def zeroed_ctx_def x264_encoder_open_def init_encoder_csc_def
      sws_getContext_def log_event_def x264_param_apply_profile_def
      x264_param_default_preset_def get_x264_colour_sampling_def get_profile_for_quality_def
      I422_MIN_QUALITY_def I444_MIN_QUALITY_def split: prod.splits)

lemma sample_encoder_fixed_chroma_set_quality:
  "\<exists>s. set_encoding_quality sample_lib sample_encoder_fixed_chroma pct = Inr s"
proof -
  from sample_encoder_fixed_chroma_state(1,2) obtain p where
    "encoder (fst sample_encoder_fixed_chroma) = Some 1"
    "encoders (snd sample_encoder_fixed_chroma) 1 = Some p" by blast
  from set_encoding_quality_returns [OF this] show ?thesis by simp
qed

lemma sample_encoder_set_speed:
  "\<exists>s. set_encoding_speed sample_lib sample_encoder pct = Inr s"
proof -
  from sample_encoder_live obtain p where
    "encoder (fst sample_encoder) = Some 1" "encoders (snd sample_encoder) 1 = Some p" by blast
  from set_encoding_speed_returns [OF this] show ?thesis by simp
qed

section \<open>Encoding and decoding a frame\<close>

lemma compress_image_releases:
  assumes "compress_image l (ctx, w) pic out0 qo = Inr (r, out, w')"
  shows "pictures w' pic = None" and "r \<noteq> 0 \<Longrightarrow> out = (None, 0)" and "r = 0 \<or> r = 1 \<or> r = 2"
  using assms
  by (auto simp: compress_image_def x264_encoder_encode_def free_csc_image_def log_event_def Let_def
      split: if_splits option.splits sum.splits prod.splits)

lemma compress_image_vpx_releases:
  assumes "compress_image_vpx e vw p out0 = Inr (r, out, vw')"
  shows "images vw' p = None" and "r \<noteq> 0 \<Longrightarrow> out = out0"
  using assms
  by (auto simp: compress_image_vpx_def vpx_img_free_def codec_error_def Let_def
      split: if_splits option.splits)

lemma copy_planes_nothing:
  assumes "linesize pic = [0, 0, 0]"
  shows "outsize (copy_planes h pic [0, 1, 2] d) = outsize d"
  using assms by simp

lemma decompress_image_codes:
  assumes "codec_ctx ctx = Some c" and "codec ctx \<noteq> None" and "codec_contexts w c = Some cc"
    and "avcodec_decode_video2_result l cc buf = (len, got, pic)"
  shows "len < 0 \<Longrightarrow> map_sum id fst (decompress_image l (ctx, w) buf d) = Inr 2"
    and "0 \<le> len \<Longrightarrow> map_sum id fst (decompress_image l (ctx, w) buf d)
      = Inr (if outsize (copy_planes (height ctx) pic [0, 1, 2] d) = 0 then 3 else 0)"
  using assms
  by (auto simp: decompress_image_def Let_def simp del: copy_planes.simps)

lemma decompress_image_vpx_codes:
  shows "vpx_codec_decode_result e buf \<noteq> 0 \<Longrightarrow> fst (decompress_image_vpx e vw buf d) = - 1"
    and "vpx_codec_decode_result e buf = 0 \<Longrightarrow> vpx_codec_get_frame_result e buf = None
      \<Longrightarrow> fst (decompress_image_vpx e vw buf d) = - 1"
  by (simp_all add: decompress_image_vpx_def)

section \<open>The decoder context\<close>

lemma clean_decoder_fields:
  assumes "clean_decoder (ctx, w) = (ctx', w')"
  shows "width ctx' = width ctx" and "height ctx' = height ctx"
    and "codec_ctx ctx' = None" and "yuv2rgb ctx' = None"
  using assms by (auto simp: clean_decoder_def split: option.splits prod.splits)

text \<open>Whatever \<^verbatim>\<open>init_decoder_context\<close> returns, the context records the format asked for,
  and the converter and the codec context it created carry that format.\<close>

lemma init_decoder_context_formats:
  assumes "init_decoder_context l (ctx, w) w0 h0 fmt = Inr (r, ctx', w')"
    and "0 \<le> fmt" and "codec_ctx ctx = None"
  shows "csc_format ctx' = fmt"
    and "yuv2rgb ctx' = Some h \<Longrightarrow> map_option srcFormat (sws_contexts w' h) = Some fmt"
    and "codec_ctx ctx' = Some c \<Longrightarrow> map_option pix_fmt (codec_contexts w' c) = Some fmt"
  using assms
  by (auto simp: init_decoder_context_def Let_def sws_getContext_def avcodec_alloc_context3_def
      avcodec_open2_def log_event_def
      split: if_splits prod.splits sum.splits option.splits)

text \<open>The sample decoder, and what is left of it after the failed change to 4:4:4.\<close>

lemma lib_no_444_formats:
  "PIX_FMT_YUV420P lib_no_444 = 0" "PIX_FMT_YUV422P lib_no_444 = 4"
  "PIX_FMT_YUV444P lib_no_444 = 5"
  by (simp_all add: lib_no_444_def sample_lib_def)

lemma sample_decoder_opened:
  "init_decoder lib_no_444 empty_world 640 480 0 = Inr (Some (fst sample_decoder), snd sample_decoder)"
  "csc_format (fst sample_decoder) = 0"
  "width (fst sample_decoder) = 640" "height (fst sample_decoder) = 480"
  "codec_state sample_decoder
     = Some \<lparr>av_width = 640, av_height = 480, pix_fmt = 0, is_open = True\<rparr>"
  by (simp_all add: sample_decoder_def codec_state_def init_decoder_def init_decoder_context_def
      lib_no_444_def sample_lib_def empty_world_def zeroed_ctx_def sws_getContext_def
      avcodec_find_decoder_def avcodec_alloc_context3_def avcodec_open2_def log_event_def
      get_csc_algo_for_quality_def Let_def)

lemma sample_decoder_codec:
  "\<exists>ctx w c. sample_decoder = (ctx, w) \<and> codec_ctx ctx = Some c \<and> codec ctx \<noteq> None
     \<and> codec_contexts w c
        = Some \<lparr>av_width = 640, av_height = 480, pix_fmt = 0, is_open = True\<rparr>"
  by (simp add: sample_decoder_def init_decoder_def init_decoder_context_def
      lib_no_444_def sample_lib_def empty_world_def zeroed_ctx_def sws_getContext_def
      avcodec_find_decoder_def avcodec_alloc_context3_def avcodec_open2_def log_event_def
      get_csc_algo_for_quality_def Let_def)

lemma sample_decoder_failed_recovers:
  "\<exists>ctx2 w2. init_decoder_context lib_no_444 (clean_decoder sample_decoder_failed) 640 480 4
       = Inr (0, ctx2, w2)
     \<and> codec_state (ctx2, w2)
        = Some \<lparr>av_width = 640, av_height = 480, pix_fmt = 4, is_open = True\<rparr>"
  "width (fst sample_decoder_failed) = 640" "height (fst sample_decoder_failed) = 480"
  by (simp_all add: sample_decoder_failed_def sample_decoder_def codec_state_def
      init_decoder_def init_decoder_context_def set_decoder_csc_format_def
      clean_decoder_def lib_no_444_def sample_lib_def
      empty_world_def zeroed_ctx_def sws_getContext_def sws_freeContext_def
      avcodec_find_decoder_def avcodec_alloc_context3_def avcodec_open2_def
      avcodec_close_free_def log_event_def get_csc_algo_for_quality_def Let_def)


lemma stderr_lines_log_event:
  "stderr_lines (log_event (Stderr s) w) = stderr_lines w @ [s]"
  "stderr_lines (log_event (Sws_getContext c p) w) = stderr_lines w"
  "stderr_lines (log_event (Sws_freeContext h) w) = stderr_lines w"
  "stderr_lines (log_event (Avcodec_open2 a b) w) = stderr_lines w"
  "stderr_lines (log_event (Avcodec_close a) w) = stderr_lines w"
  by (simp_all add: stderr_lines_def log_event_def)

lemma log_event_fields:
  "next_ptr (log_event e w) = next_ptr w"
  "sws_contexts (log_event e w) = sws_contexts w"
  "codec_contexts (log_event e w) = codec_contexts w"
  by (simp_all add: log_event_def)

lemma stderr_lines_update:
  "stderr_lines (w\<lparr>next_ptr := n\<rparr>) = stderr_lines w"
  "stderr_lines (w\<lparr>sws_contexts := s\<rparr>) = stderr_lines w"
  "stderr_lines (w\<lparr>codec_contexts := c\<rparr>) = stderr_lines w"
  by (simp_all add: stderr_lines_def)

lemma clean_decoder_stderr:
  assumes "clean_decoder (ctx, w) = (ctx', w')"
  shows "stderr_lines w' = stderr_lines w"
  using assms
  by (auto simp: clean_decoder_def sws_freeContext_def avcodec_close_free_def
      stderr_lines_log_event stderr_lines_update split: option.splits prod.splits)

text \<open>\<^verbatim>\<open>init_decoder_context\<close> returns, whatever the libraries answer.\<close>

lemma init_decoder_context_returns:
  "\<exists>r ctx' w'. init_decoder_context l (ctx, w) w0 h0 fmt = Inr (r, ctx', w')"
  by (auto simp: init_decoder_context_def Let_def sws_getContext_def avcodec_alloc_context3_def
      avcodec_open2_def log_event_fields
      split: if_splits prod.splits sum.splits option.splits)

text \<open>It returns nonzero exactly when the decoder is not found or cannot be opened, and
  then it has written one line to \<^verbatim>\<open>stderr\<close>; a converter that cannot be built changes
  neither the return value nor \<^verbatim>\<open>stderr\<close>.\<close>

lemma init_decoder_context_outcome:
  assumes "init_decoder_context l (ctx, w) w0 h0 fmt = Inr (r, ctx', w')" and "0 \<le> fmt"
  shows "r \<noteq> 0 \<longleftrightarrow> avcodec_find_decoder l = None
          \<or> \<not> avcodec_open2_ok l
               \<lparr>av_width = w0, av_height = h0, pix_fmt = fmt, is_open = False\<rparr>"
    and "yuv2rgb ctx' = None \<longleftrightarrow>
          \<not> sws_getContext_ok l
             \<lparr>srcW = w0, srcH = h0, srcFormat = fmt, dstW = w0, dstH = h0,
              dstFormat = PIX_FMT_RGB24 l, flags = get_csc_algo_for_quality l 100\<rparr>"
    and "r = 0 \<Longrightarrow> stderr_lines w' = stderr_lines w"
    and "r = 0 \<Longrightarrow> codec_state (ctx', w')
              = Some \<lparr>av_width = w0, av_height = h0, pix_fmt = fmt, is_open = True\<rparr>"
    and "r \<noteq> 0 \<Longrightarrow> stderr_lines w' = stderr_lines w @
          [if avcodec_find_decoder l = None then ''codec H264 not found!''
           else ''could not open codec'']"
  using assms
  by (auto simp: init_decoder_context_def Let_def sws_getContext_def avcodec_alloc_context3_def
      avcodec_open2_def avcodec_find_decoder_def codec_state_def
      stderr_lines_log_event stderr_lines_update log_event_fields
      split: if_splits prod.splits sum.splits option.splits)

lemma sample_libs_decoder:
  "avcodec_find_decoder lib_no_444 = Some 0"
  "avcodec_open2_ok lib_no_444 cc \<longleftrightarrow> pix_fmt cc \<noteq> 5"
  "sws_getContext_ok lib_no_444 sc"
  "avcodec_find_decoder lib_no_444_converter = Some 0"
  "avcodec_open2_ok lib_no_444_converter cc"
  "sws_getContext_ok lib_no_444_converter sc \<longleftrightarrow> srcFormat sc \<noteq> 5"
  "PIX_FMT_YUV444P lib_no_444_converter = 5"
  by (simp_all add: lib_no_444_def lib_no_444_converter_def sample_lib_def
      avcodec_find_decoder_def)

lemma sample_decoder_stderr: "stderr_lines (snd sample_decoder) = []"
  by (simp add: sample_decoder_def init_decoder_def init_decoder_context_def
      lib_no_444_def sample_lib_def empty_world_def zeroed_ctx_def sws_getContext_def
      avcodec_find_decoder_def avcodec_alloc_context3_def avcodec_open2_def log_event_def
      get_csc_algo_for_quality_def stderr_lines_def Let_def)

lemma sample_decoder_no_converter_recovers:
  "\<exists>ctx2 w2. init_decoder_context lib_no_444_converter
         (clean_decoder sample_decoder_no_converter) 640 480 4 = Inr (0, ctx2, w2)
     \<and> codec_state (ctx2, w2)
        = Some \<lparr>av_width = 640, av_height = 480, pix_fmt = 4, is_open = True\<rparr>"
  "width (fst sample_decoder_no_converter) = 640"
  "height (fst sample_decoder_no_converter) = 480"
  by (simp_all add: sample_decoder_no_converter_def sample_decoder_def codec_state_def
      init_decoder_def init_decoder_context_def set_decoder_csc_format_def
      clean_decoder_def lib_no_444_def lib_no_444_converter_def sample_lib_def
      empty_world_def zeroed_ctx_def sws_getContext_def sws_freeContext_def
      avcodec_find_decoder_def avcodec_alloc_context3_def avcodec_open2_def
      avcodec_close_free_def log_event_def get_csc_algo_for_quality_def Let_def)

section \<open>The claims\<close>

text \<open>
  C1. For every quality percentage \<open>pct\<close> in \<open>[0, 100]\<close> the quantizer that
  \<^verbatim>\<open>get_x264_quality\<close> derives equals \<open>round(50 - pct * 49 / 100)\<close>; quality 100 yields
  the best (lowest) quantizer 1 and quality 0 the worst, 50.
\<close>

theorem get_x264_quality_formula:
  assumes "0 \<le> pct" and "pct \<le> 100"
  shows "get_x264_quality pct = of_int (round (50 - of_int pct * 49 / 100 :: rat))
    \<and> get_x264_quality pct = of_int (spec_quantizer pct)
    \<and> get_x264_quality 100 = 1 \<and> get_x264_quality 0 = 50"
proof -
  have "get_x264_quality 100 = of_int (round (50 - of_int 100 * 49 / 100 :: rat))"
    by (rule get_x264_quality_in_range) simp_all
  then have a: "get_x264_quality 100 = 1" by simp
  have "get_x264_quality 0 = of_int (round (50 - of_int 0 * 49 / 100 :: rat))"
    by (rule get_x264_quality_in_range) simp_all
  then have b: "get_x264_quality 0 = 50" by simp
  show ?thesis
    using get_x264_quality_in_range [OF assms] get_x264_quality_spec [OF assms] a b by simp
qed

theorem get_x264_quality_formula_witness:
  "(0::int) \<le> 50 \<and> (50::int) \<le> 100 \<and> get_x264_quality 50 = 26
    \<and> spec_quantizer 50 = 26"
proof -
  have "round (50 - of_int 50 * 49 / 100 :: rat) = 26" by (simp add: round_def)
  then show ?thesis
    using get_x264_quality_formula [of 50] by (simp add: spec_quantizer_def)
qed

text \<open>
  C2. For every quality percentage \<open>pct\<close> in \<open>[0, 100]\<close>: with chroma switching enabled
  \<^verbatim>\<open>get_x264_colour_sampling\<close> returns 4:2:0 for \<open>pct < 80\<close>, 4:2:2 for
  \<open>80 \<le> pct < 90\<close> and 4:4:4 for \<open>pct \<ge> 90\<close>; with chroma switching disabled it returns
  4:2:0 for every \<open>pct\<close>.
\<close>

theorem get_x264_colour_sampling_thresholds:
  assumes "0 \<le> pct" and "pct \<le> 100"
  shows "(supports_csc_option ctx \<noteq> 0 \<longrightarrow>
           (pct < 80 \<longrightarrow> get_x264_colour_sampling l ctx pct = X264_CSP_I420 l)
         \<and> (80 \<le> pct \<and> pct < 90 \<longrightarrow> get_x264_colour_sampling l ctx pct = X264_CSP_I422 l)
         \<and> (90 \<le> pct \<longrightarrow> get_x264_colour_sampling l ctx pct = X264_CSP_I444 l))
       \<and> (supports_csc_option ctx = 0 \<longrightarrow> get_x264_colour_sampling l ctx pct = X264_CSP_I420 l)"
  by (simp add: get_x264_colour_sampling_def I422_MIN_QUALITY_def I444_MIN_QUALITY_def)

theorem get_x264_colour_sampling_thresholds_witness:
  "get_x264_colour_sampling sample_lib (zeroed_ctx\<lparr>supports_csc_option := 1\<rparr>) 79 = 1
   \<and> get_x264_colour_sampling sample_lib (zeroed_ctx\<lparr>supports_csc_option := 1\<rparr>) 80 = 4
   \<and> get_x264_colour_sampling sample_lib (zeroed_ctx\<lparr>supports_csc_option := 1\<rparr>) 89 = 4
   \<and> get_x264_colour_sampling sample_lib (zeroed_ctx\<lparr>supports_csc_option := 1\<rparr>) 90 = 7
   \<and> get_x264_colour_sampling sample_lib zeroed_ctx 95 = 1"
  using
    get_x264_colour_sampling_thresholds [of 79 "zeroed_ctx\<lparr>supports_csc_option := 1\<rparr>" sample_lib]
    get_x264_colour_sampling_thresholds [of 80 "zeroed_ctx\<lparr>supports_csc_option := 1\<rparr>" sample_lib]
    get_x264_colour_sampling_thresholds [of 89 "zeroed_ctx\<lparr>supports_csc_option := 1\<rparr>" sample_lib]
    get_x264_colour_sampling_thresholds [of 90 "zeroed_ctx\<lparr>supports_csc_option := 1\<rparr>" sample_lib]
    get_x264_colour_sampling_thresholds [of 95 zeroed_ctx sample_lib]
  by (simp add: sample_lib_def zeroed_ctx_def)

text \<open>
  C3, as the code has it. For an encoder opened at quality 50, \<^verbatim>\<open>set_encoding_quality(51)\<close>
  changes nothing: the context and the world after the call are the context and the
  world before it, so the engine is the same instance and none of its parameters is
  rewritten. The quantizer stays 26, the value derived for quality 50, and is not
  updated to 25, the value derived for quality 51: 50 and 51 agree in every bit but the
  lowest, and the code compares the two qualities with \<^verbatim>\<open>& ~0x1\<close>.
\<close>

theorem set_encoding_quality_50_51:
  "set_encoding_quality l (init_encoder l w w0 h0 50 sp) 51 = Inr (init_encoder l w w0 h0 50 sp)
   \<and> x264_quality (fst (init_encoder l w w0 h0 50 sp)) = 26
   \<and> get_x264_quality 51 = 25"
proof -
  obtain ctx w1 where i: "init_encoder l w w0 h0 50 sp = (ctx, w1)"
    by (cases "init_encoder l w w0 h0 50 sp")
  then have d: "do_init_encoder l (zeroed_ctx, w) w0 h0 50 sp = (ctx, w1)"
    by (simp add: init_encoder_def)
  from do_init_encoder_fields(5) [OF d] have "x264_quality ctx = 26" by (simp add: q50)
  then show ?thesis using init_encoder_settled_51 [of l w w0 h0 sp] q51 by (simp add: i)
qed

text \<open>C3 as stated fails: after \<^verbatim>\<open>set_encoding_quality(51)\<close> on the sample encoder opened
  at quality 50, the quantizer of the engine at address 1 is 26, not the 25 derived for
  quality 51.\<close>

theorem set_encoding_quality_50_51_counterexample:
  "set_encoding_quality sample_lib sample_encoder 51 = Inr sample_encoder
   \<and> encoder (fst sample_encoder) = Some 1
   \<and> map_option f_rf_constant (encoders (snd sample_encoder) 1) = Some 26
   \<and> x264_quality (fst sample_encoder) = 26
   \<and> get_x264_quality 51 = 25"
  using init_encoder_settled_51 [of sample_lib empty_world 640 480 1] sample_encoder_state q51
  by (simp add: sample_encoder_def)

text \<open>
  C4, as the code has it. The profile follows the quality alone, by the thresholds 80
  and 90 of the chroma format. With chroma switching enabled the two are paired after
  \<^verbatim>\<open>init_encoder\<close>, and \<^verbatim>\<open>set_encoding_quality\<close> keeps them paired: 4:2:0 with baseline,
  4:2:2 with high422, 4:4:4 with high444. With chroma switching disabled the format is
  4:2:0 whatever the quality, the profile is the one of the initial quality, and
  \<^verbatim>\<open>set_encoding_quality\<close> changes neither.
\<close>

theorem profile_follows_quality:
  assumes "set_encoding_quality l (ctx, w1) pct = Inr (ctx', w1')"
  shows "(sp \<noteq> 0 \<longrightarrow> profile_matches_sampling l (fst (init_encoder l w w0 h0 q sp)))
    \<and> colour_sampling (fst (init_encoder l w w0 h0 q 0)) = X264_CSP_I420 l
    \<and> profile (fst (init_encoder l w w0 h0 q 0)) = Some (get_profile_for_quality q)
    \<and> supports_csc_option ctx' = supports_csc_option ctx
    \<and> (supports_csc_option ctx \<noteq> 0 \<and> profile_matches_sampling l ctx
         \<longrightarrow> profile_matches_sampling l ctx')
    \<and> (supports_csc_option ctx = 0
         \<longrightarrow> colour_sampling ctx' = colour_sampling ctx \<and> profile ctx' = profile ctx)"
proof -
  have a: "profile_matches_sampling l (fst (init_encoder l w w0 h0 q sp))" if "sp \<noteq> 0"
  proof -
    obtain c v where i: "init_encoder l w w0 h0 q sp = (c, v)"
      by (cases "init_encoder l w w0 h0 q sp")
    then have d: "do_init_encoder l (zeroed_ctx, w) w0 h0 q sp = (c, v)"
      by (simp add: init_encoder_def)
    note f = do_init_encoder_fields [OF d]
    have "profile_matches_sampling l c"
      by (rule thresholds_pair [OF _ f(3) f(6)]) (simp add: f(2) that)
    then show ?thesis by (simp add: i)
  qed
  obtain c0 v0 where i0: "init_encoder l w w0 h0 q 0 = (c0, v0)"
    by (cases "init_encoder l w w0 h0 q 0")
  then have d0: "do_init_encoder l (zeroed_ctx, w) w0 h0 q 0 = (c0, v0)"
    by (simp add: init_encoder_def)
  note f0 = do_init_encoder_fields [OF d0]
  have b: "colour_sampling c0 = X264_CSP_I420 l"
    using f0(2,3) by (simp add: get_x264_colour_sampling_def)
  note p = set_encoding_quality_policy [OF assms]
  have c: "profile_matches_sampling l ctx'"
    if s: "supports_csc_option ctx \<noteq> 0" and m: "profile_matches_sampling l ctx"
  proof (cases "colour_sampling ctx = get_x264_colour_sampling l ctx pct")
    case True
    with p(3) m show ?thesis by (simp add: profile_matches_sampling_def)
  next
    case False
    from p(2) [OF s False] show ?thesis
      by (intro thresholds_pair [where q = pct]) (simp_all add: p(1) s)
  qed
  show ?thesis using a b c f0(6) p(1) p(3) by (simp add: i0)
qed

theorem profile_follows_quality_witness:
  "profile_matches_sampling sample_lib (fst sample_encoder)
   \<and> map_sum id (profile_matches_sampling sample_lib \<circ> fst)
       (set_encoding_quality sample_lib sample_encoder 95) = Inr True
   \<and> map_sum id (supports_csc_option \<circ> fst)
       (set_encoding_quality sample_lib sample_encoder 95) = Inr 1
   \<and> map_sum id (colour_sampling \<circ> fst)
       (set_encoding_quality sample_lib sample_encoder_fixed_chroma 50) = Inr 1
   \<and> map_sum id (profile \<circ> fst)
       (set_encoding_quality sample_lib sample_encoder_fixed_chroma 50)
       = Inr (Some PROFILE_HIGH444_PREDICTIVE)"
proof -
  from sample_encoder_set_quality [of 95] obtain ctx1 w1 where
    a: "set_encoding_quality sample_lib (fst sample_encoder, snd sample_encoder) 95 = Inr (ctx1, w1)"
    by fastforce
  from profile_follows_quality [OF a, of 1 empty_world 640 480 50] sample_encoder_state(5)
  have 1: "profile_matches_sampling sample_lib (fst sample_encoder)"
    "profile_matches_sampling sample_lib ctx1" "supports_csc_option ctx1 = 1"
    by (simp_all add: sample_encoder_def)
  from sample_encoder_fixed_chroma_set_quality [of 50] obtain ctx2 w2 where
    b: "set_encoding_quality sample_lib
      (fst sample_encoder_fixed_chroma, snd sample_encoder_fixed_chroma) 50 = Inr (ctx2, w2)"
    by fastforce
  from profile_follows_quality [OF b, of 1 empty_world 640 480 50]
    sample_encoder_fixed_chroma_state(3,4,5)
  have 2: "colour_sampling ctx2 = 1" "profile ctx2 = Some PROFILE_HIGH444_PREDICTIVE"
    by simp_all
  show ?thesis using 1 2 a b by simp
qed

text \<open>C4 as stated fails with chroma switching disabled: the sample encoder opened at
  quality 95 has the format 4:2:0 and the profile high444.\<close>

theorem profile_matches_sampling_counterexample:
  "colour_sampling (fst (init_encoder sample_lib empty_world 640 480 95 0))
     = X264_CSP_I420 sample_lib
   \<and> profile (fst (init_encoder sample_lib empty_world 640 480 95 0))
     = Some PROFILE_HIGH444_PREDICTIVE
   \<and> \<not> profile_matches_sampling sample_lib (fst (init_encoder sample_lib empty_world 640 480 95 0))"
proof -
  obtain ctx w where i: "init_encoder sample_lib empty_world 640 480 95 0 = (ctx, w)"
    by (cases "init_encoder sample_lib empty_world 640 480 95 0")
  then have d: "do_init_encoder sample_lib (zeroed_ctx, empty_world) 640 480 95 0 = (ctx, w)"
    by (simp add: init_encoder_def)
  note f = do_init_encoder_fields [OF d]
  have a: "colour_sampling ctx = 1"
    using f(2,3) by (simp add: get_x264_colour_sampling_def sample_lib_def)
  have b: "profile ctx = Some PROFILE_HIGH444_PREDICTIVE"
    using f(6) by (simp add: get_profile_for_quality_def I422_MIN_QUALITY_def I444_MIN_QUALITY_def)
  show ?thesis
    unfolding i fst_conv using a b
    by (simp add: profile_matches_sampling_def sample_lib_def PROFILE_HIGH444_PREDICTIVE_def
        PROFILE_BASELINE_def)
qed

text \<open>
  C5, as the code has it. For every speed percentage \<open>pct\<close> in \<open>[0, 100]\<close> the preset
  index \<^verbatim>\<open>set_encoding_speed\<close> computes and stores is
  \<open>7 - clamp(ceiling(pct / 12.5), 0, 7)\<close>: the conversion of \<^verbatim>\<open>7 - pct/12.5\<close> to \<^verbatim>\<open>int\<close>
  discards the fraction, so the quotient is rounded up, not to the nearest integer.
  Speed 100 maps to the fastest preset (index 0) and speed 0 to the slowest (index 7).
\<close>

theorem set_encoding_speed_preset_index:
  assumes "0 \<le> pct" and "pct \<le> 100"
    and "set_encoding_speed l (ctx, w) pct = Inr (ctx', w')"
  shows "encoding_preset ctx' = 7 - max 0 (min 7 \<lceil>of_int pct / (25 / 2) :: rat\<rceil>)
    \<and> encoding_preset ctx' = new_preset pct \<and> new_preset 100 = 0 \<and> new_preset 0 = 7"
proof -
  have "(0::rat) \<le> of_int pct / (25 / 2)" using assms(1) by simp
  then have "0 \<le> \<lceil>of_int pct / (25 / 2) :: rat\<rceil>" by (simp add: zero_le_ceiling)
  then have m: "max 0 (min 7 \<lceil>of_int pct / (25 / 2) :: rat\<rceil>)
      = min 7 \<lceil>of_int pct / (25 / 2) :: rat\<rceil>"
    by simp
  have e1: "encoding_preset ctx' = new_preset pct"
    by (rule set_encoding_speed_stores [OF assms(3)])
  have e2: "new_preset pct = 7 - min 7 \<lceil>of_int pct / (25 / 2) :: rat\<rceil>"
    by (rule new_preset_in_range [OF assms(1,2)])
  show ?thesis by (intro conjI) (simp_all only: m e1 e2 new_preset_100 new_preset_0)
qed

theorem set_encoding_speed_preset_index_witness:
  "map_sum id (encoding_preset \<circ> fst) (set_encoding_speed sample_lib sample_encoder 50) = Inr 3
   \<and> 7 - max 0 (min 7 \<lceil>of_int 50 / (25 / 2) :: rat\<rceil>) = 3"
proof -
  from sample_encoder_set_speed [of 50] obtain ctx1 w1 where
    a: "set_encoding_speed sample_lib (fst sample_encoder, snd sample_encoder) 50 = Inr (ctx1, w1)"
    by fastforce
  have "(0::int) \<le> 50" "(50::int) \<le> 100" by simp_all
  from set_encoding_speed_preset_index [OF this a] show ?thesis
    using a by (simp add: new_preset_50)
qed

text \<open>C5 as stated fails at speed 5: \<^verbatim>\<open>set_encoding_speed(5)\<close> stores the index 6, and
  \<open>7 - clamp(round(5 / 12.5), 0, 7)\<close> is 7.\<close>

theorem set_encoding_speed_round_counterexample:
  "map_sum id (encoding_preset \<circ> fst) (set_encoding_speed sample_lib sample_encoder 5) = Inr 6
   \<and> new_preset 5 = 6
   \<and> spec_preset_index 5 = 7
   \<and> 7 - max 0 (min 7 (round (of_int 5 / (25 / 2) :: rat))) = 7"
proof -
  from sample_encoder_set_speed [of 5] obtain ctx1 w1 where
    a: "set_encoding_speed sample_lib (fst sample_encoder, snd sample_encoder) 5 = Inr (ctx1, w1)"
    by fastforce
  from set_encoding_speed_stores [OF a] have "encoding_preset ctx1 = 6"
    by (simp add: new_preset_5)
  then show ?thesis
    using a spec_preset_index_5 by (simp add: new_preset_5 spec_preset_index_def)
qed

text \<open>
  C6. For every encoder context and every quality percentage \<open>pct\<close>, a second
  \<^verbatim>\<open>set_encoding_quality(pct)\<close> right after a first one performs no reconfiguration: it
  returns the context and the world it was given, so the engine is not closed or
  reopened, its parameters are not rewritten, the colour converter is not rebuilt and
  no library call is made.
\<close>

theorem set_encoding_quality_idempotent:
  assumes "set_encoding_quality l (ctx, w) pct = Inr (ctx', w')"
  shows "set_encoding_quality l (ctx', w') pct = Inr (ctx', w')"
  by (rule set_encoding_quality_settled) (rule set_encoding_quality_result [OF assms])+

theorem set_encoding_quality_idempotent_witness:
  "(case set_encoding_quality sample_lib sample_encoder 60 of
      Inl f \<Rightarrow> False
    | Inr s \<Rightarrow> set_encoding_quality sample_lib s 60 = Inr s)
   \<and> (case set_encoding_quality sample_lib sample_encoder 95 of
      Inl f \<Rightarrow> False
    | Inr s \<Rightarrow> set_encoding_quality sample_lib s 95 = Inr s)"
proof -
  from sample_encoder_set_quality [of 60] obtain ctx1 w1 where
    a: "set_encoding_quality sample_lib (fst sample_encoder, snd sample_encoder) 60 = Inr (ctx1, w1)"
    by fastforce
  from sample_encoder_set_quality [of 95] obtain ctx2 w2 where
    b: "set_encoding_quality sample_lib (fst sample_encoder, snd sample_encoder) 95 = Inr (ctx2, w2)"
    by fastforce
  show ?thesis
    using set_encoding_quality_idempotent [OF a] set_encoding_quality_idempotent [OF b] a b
    by simp
qed

text \<open>
  C7, as the code has it. Every return path of both \<^verbatim>\<open>compress_image\<close> functions frees
  the input image. On its failure paths (encoder not initialised, return 1; encode
  failure, return 2) the x264 function sets the output pointer to null and the output
  size to zero; the VP8 function leaves both as the caller had them on its failure
  paths (encode error; a packet that is not a frame).
\<close>

theorem compress_image_frees_input:
  assumes "compress_image l (ctx, w) pic out0 qo = Inr (r, out, w')"
    and "compress_image_vpx e vw p vout0 = Inr (vr, vout, vw')"
  shows "pictures w' pic = None \<and> (r = 0 \<or> r = 1 \<or> r = 2)
    \<and> (r \<noteq> 0 \<longrightarrow> out = (None, 0))
    \<and> images vw' p = None
    \<and> (vr \<noteq> 0 \<longrightarrow> vout = vout0)"
  using compress_image_releases [OF assms(1)] compress_image_vpx_releases [OF assms(2)]
  by simp

theorem compress_image_frees_input_witness:
  "compress_image sample_lib
       (zeroed_ctx, empty_world\<lparr>pictures := [9 \<mapsto> \<lparr>i_pts = 0, pic_param = None\<rparr>]\<rparr>)
       9 (Some 99, 1234) (- 1)
     = Inr (1, (None, 0), empty_world)
   \<and> compress_image_vpx failing_vpx_engine \<lparr>images = [7 \<mapsto> sample_image], stdout = []\<rparr> 7
       (Some 99, 1234)
     = Inr (1, (Some 99, 1234), \<lparr>images = Map.empty, stdout = [''vpx_codec_encode'']\<rparr>)"
proof -
  have a: "compress_image sample_lib
      (zeroed_ctx, empty_world\<lparr>pictures := [9 \<mapsto> \<lparr>i_pts = 0, pic_param = None\<rparr>]\<rparr>)
      9 (Some 99, 1234) (- 1) = Inr (1, (None, 0), empty_world)"
    by (simp add: compress_image_def zeroed_ctx_def free_csc_image_def empty_world_def)
  obtain vw' where b: "compress_image_vpx failing_vpx_engine
      \<lparr>images = [7 \<mapsto> sample_image], stdout = []\<rparr> 7 (Some 99, 1234)
      = Inr (1, (Some 99, 1234), vw')"
    and s: "stdout vw' = [''vpx_codec_encode'']"
    by (simp add: compress_image_vpx_def failing_vpx_engine_def vpx_img_free_def
        codec_error_def Let_def)
  from compress_image_frees_input [OF a b] have "images vw' 7 = None" by simp
  moreover have "images vw' x = None" if "x \<noteq> 7" for x
    using b that
    by (auto simp: compress_image_vpx_def failing_vpx_engine_def vpx_img_free_def
        codec_error_def Let_def)
  ultimately have "images vw' = Map.empty" by (intro ext) (case_tac "x = 7"; simp)
  with s have "vw' = \<lparr>images = Map.empty, stdout = [''vpx_codec_encode'']\<rparr>" by simp
  with a b show ?thesis by simp
qed

text \<open>C7 as stated fails in vpxlib.c: when the engine reports an encode error, the
  function frees the image and returns the error with the caller's output pointer and
  size untouched, here a non-null pointer and the size 1234.\<close>

theorem compress_image_vpx_counterexample:
  "compress_image_vpx failing_vpx_engine \<lparr>images = [7 \<mapsto> sample_image], stdout = []\<rparr> 7
     (Some 99, 1234)
   = Inr (1, (Some 99, 1234), \<lparr>images = Map.empty, stdout = [''vpx_codec_encode'']\<rparr>)"
  by (simp add: compress_image_vpx_def failing_vpx_engine_def vpx_img_free_def codec_error_def
      Let_def)

text \<open>
  C8, as the code has it. The x264 decoder surfaces the two cases as different results:
  a decoding error of the engine returns 2, and a call the engine decodes without error
  never returns 2; it returns 3 when no output was produced (the sizes add up to zero)
  and 0 otherwise. The VP8 decoder returns the same value \<open>-1\<close> in both cases.
\<close>

theorem decode_result_codes:
  assumes "codec_ctx ctx = Some c" and "codec ctx \<noteq> None" and "codec_contexts w c = Some cc"
    and "avcodec_decode_video2_result l cc buf = (len, got, pic)"
  shows "(len < 0 \<longrightarrow> map_sum id fst (decompress_image l (ctx, w) buf d) = Inr 2)
    \<and> (0 \<le> len \<longrightarrow> map_sum id fst (decompress_image l (ctx, w) buf d)
          = Inr (if outsize (copy_planes (height ctx) pic [0, 1, 2] d) = 0 then 3 else 0))
    \<and> (0 \<le> len \<and> outsize d = 0 \<and> linesize pic = [0, 0, 0]
         \<longrightarrow> map_sum id fst (decompress_image l (ctx, w) buf d) = Inr 3)
    \<and> (vpx_codec_decode_result e buf \<noteq> 0 \<longrightarrow> fst (decompress_image_vpx e vw buf d) = - 1)
    \<and> (vpx_codec_decode_result e buf = 0 \<and> vpx_codec_get_frame_result e buf = None
         \<longrightarrow> fst (decompress_image_vpx e vw buf d) = - 1)"
proof -
  note x = decompress_image_codes [OF assms, of d]
  have "map_sum id fst (decompress_image l (ctx, w) buf d) = Inr 3"
    if "0 \<le> len" "outsize d = 0" "linesize pic = [0, 0, 0]"
    using x(2) [OF that(1)] copy_planes_nothing [OF that(3), of "height ctx" d] that(2)
    by (simp del: copy_planes.simps)
  with x decompress_image_vpx_codes [of e buf vw d] show ?thesis by blast
qed

theorem decode_result_codes_witness:
  "map_sum id fst (decompress_image lib_no_444 sample_decoder [] empty_out) = Inr 3
   \<and> map_sum id fst (decompress_image lib_decode_error sample_decoder [] empty_out) = Inr 2
   \<and> fst (decompress_image_vpx failing_vpx_engine \<lparr>images = Map.empty, stdout = []\<rparr> [] empty_out)
     = - 1
   \<and> fst (decompress_image_vpx no_frame_vpx_engine \<lparr>images = Map.empty, stdout = []\<rparr> [] empty_out)
     = - 1"
proof -
  from sample_decoder_codec obtain ctx w c where s: "sample_decoder = (ctx, w)"
    and c: "codec_ctx ctx = Some c" "codec ctx \<noteq> None"
      "codec_contexts w c = Some \<lparr>av_width = 640, av_height = 480, pix_fmt = 0, is_open = True\<rparr>"
    by blast
  have r: "avcodec_decode_video2_result lib_no_444
      \<lparr>av_width = 640, av_height = 480, pix_fmt = 0, is_open = True\<rparr> []
      = (0, 0, \<lparr>data = [None, None, None], linesize = [0, 0, 0]\<rparr>)"
    by (simp add: lib_no_444_def sample_lib_def)
  have r': "avcodec_decode_video2_result lib_decode_error
      \<lparr>av_width = 640, av_height = 480, pix_fmt = 0, is_open = True\<rparr> []
      = (- 1, 0, \<lparr>data = [None, None, None], linesize = [0, 0, 0]\<rparr>)"
    by (simp add: lib_decode_error_def)
  from decode_result_codes [OF c r, of empty_out failing_vpx_engine
      "\<lparr>images = Map.empty, stdout = []\<rparr>"]
    decode_result_codes [OF c r, of empty_out no_frame_vpx_engine
      "\<lparr>images = Map.empty, stdout = []\<rparr>"]
    decode_result_codes [OF c r', of empty_out no_frame_vpx_engine
      "\<lparr>images = Map.empty, stdout = []\<rparr>"]
  show ?thesis
    by (simp add: s empty_out_def failing_vpx_engine_def no_frame_vpx_engine_def)
qed

text \<open>C8 as stated fails in vpxlib.c: a decoder that reports an error and a decoder that
  accepts the data and has no frame both make \<^verbatim>\<open>decompress_image\<close> return \<open>-1\<close>, with the
  out-parameters untouched; only the line printed differs.\<close>

theorem decompress_image_vpx_counterexample:
  "decompress_image_vpx failing_vpx_engine \<lparr>images = Map.empty, stdout = []\<rparr> [] empty_out
     = (- 1, empty_out, \<lparr>images = Map.empty, stdout = [''vpx_codec_decode'']\<rparr>)
   \<and> decompress_image_vpx no_frame_vpx_engine \<lparr>images = Map.empty, stdout = []\<rparr> [] empty_out
     = (- 1, empty_out, \<lparr>images = Map.empty, stdout = [''vpx_codec_get_frame'']\<rparr>)"
  by (simp add: decompress_image_vpx_def failing_vpx_engine_def no_frame_vpx_engine_def
      codec_error_def)

text \<open>
  C9, as the code has it. \<^verbatim>\<open>set_decoder_csc_format\<close> with a new format always returns, and
  what it leaves is no terminal state. When the engine cannot be re-initialised (the
  decoder is not found, or cannot be opened) it writes the line of
  \<^verbatim>\<open>init_decoder_context\<close> and then \<^verbatim>\<open>Failed to reconfigure decoder\<close> to \<^verbatim>\<open>stderr\<close>. When
  the engine can be re-initialised it writes nothing and leaves the engine opened in
  the new format, also when the converter could not be built: the context then has no
  converter. In every case the context records the format asked for, and the converter
  and the codec context, where they exist, carry that same format, so the formats of
  engine and converter do not differ. Asking for the same format again does nothing,
  and asking for another format runs the re-initialisation again.
\<close>

theorem set_decoder_csc_format_failure:
  assumes "0 \<le> fmt" and "csc_format ctx \<noteq> fmt"
  shows "case set_decoder_csc_format l (ctx, w) fmt of
      Inl f \<Rightarrow> False
    | Inr (ctx', W) \<Rightarrow>
        (avcodec_find_decoder l = None
           \<or> \<not> avcodec_open2_ok l
               \<lparr>av_width = width ctx, av_height = height ctx, pix_fmt = fmt, is_open = False\<rparr>
         \<longrightarrow> stderr_lines W = stderr_lines w @
               [if avcodec_find_decoder l = None then ''codec H264 not found!''
                else ''could not open codec'', ''Failed to reconfigure decoder''])
      \<and> (avcodec_find_decoder l \<noteq> None
           \<and> avcodec_open2_ok l
               \<lparr>av_width = width ctx, av_height = height ctx, pix_fmt = fmt, is_open = False\<rparr>
         \<longrightarrow> stderr_lines W = stderr_lines w
             \<and> codec_state (ctx', W)
                 = Some \<lparr>av_width = width ctx, av_height = height ctx, pix_fmt = fmt,
                         is_open = True\<rparr>)
      \<and> (yuv2rgb ctx' = None \<longleftrightarrow>
           \<not> sws_getContext_ok l
              \<lparr>srcW = width ctx, srcH = height ctx, srcFormat = fmt,
               dstW = width ctx, dstH = height ctx, dstFormat = PIX_FMT_RGB24 l,
               flags = get_csc_algo_for_quality l 100\<rparr>)
      \<and> csc_format ctx' = fmt
      \<and> (case yuv2rgb ctx' of None \<Rightarrow> True
          | Some h \<Rightarrow> map_option srcFormat (sws_contexts W h) = Some fmt)
      \<and> (case codec_ctx ctx' of None \<Rightarrow> True
          | Some c \<Rightarrow> map_option pix_fmt (codec_contexts W c) = Some fmt)
      \<and> set_decoder_csc_format l (ctx', W) fmt = Inr (ctx', W)
      \<and> (0 \<le> fmt2 \<and> fmt2 \<noteq> fmt
           \<and> init_decoder_context l (clean_decoder (ctx', W)) (width ctx') (height ctx') fmt2
               = Inr (0, ctx2, w2)
         \<longrightarrow> set_decoder_csc_format l (ctx', W) fmt2 = Inr (ctx2, w2))"
proof -
  obtain ctx1 w1 where c: "clean_decoder (ctx, w) = (ctx1, w1)"
    by (cases "clean_decoder (ctx, w)")
  note cf = clean_decoder_fields [OF c]
  note cs = clean_decoder_stderr [OF c]
  from init_decoder_context_returns [of l ctx1 w1 "width ctx" "height ctx" fmt]
  obtain r ctx' w' where
    i: "init_decoder_context l (ctx1, w1) (width ctx) (height ctx) fmt = Inr (r, ctx', w')"
    by blast
  note o = init_decoder_context_outcome [OF i assms(1)]
  define W where
    "W = (if r \<noteq> 0 then log_event (Stderr ''Failed to reconfigure decoder'') w' else w')"
  note f = init_decoder_context_formats [OF i assms(1) cf(3)]
  have 2: "set_decoder_csc_format l (ctx, w) fmt = Inr (ctx', W)"
    using assms by (simp add: set_decoder_csc_format_def c cf i W_def)
  have 3: "avcodec_find_decoder l = None
           \<or> \<not> avcodec_open2_ok l
               \<lparr>av_width = width ctx, av_height = height ctx, pix_fmt = fmt, is_open = False\<rparr>
         \<longrightarrow> stderr_lines W = stderr_lines w @
               [if avcodec_find_decoder l = None then ''codec H264 not found!''
                else ''could not open codec'', ''Failed to reconfigure decoder'']"
  proof
    assume "avcodec_find_decoder l = None
           \<or> \<not> avcodec_open2_ok l
               \<lparr>av_width = width ctx, av_height = height ctx, pix_fmt = fmt, is_open = False\<rparr>"
    then have r: "r \<noteq> 0" using o(1) by auto
    from o(5) [OF r] cs r show "stderr_lines W = stderr_lines w @
               [if avcodec_find_decoder l = None then ''codec H264 not found!''
                else ''could not open codec'', ''Failed to reconfigure decoder'']"
      by (simp add: W_def stderr_lines_log_event)
  qed
  have 4: "avcodec_find_decoder l \<noteq> None
           \<and> avcodec_open2_ok l
               \<lparr>av_width = width ctx, av_height = height ctx, pix_fmt = fmt, is_open = False\<rparr>
         \<longrightarrow> stderr_lines W = stderr_lines w
             \<and> codec_state (ctx', W)
                 = Some \<lparr>av_width = width ctx, av_height = height ctx, pix_fmt = fmt,
                         is_open = True\<rparr>"
  proof
    assume "avcodec_find_decoder l \<noteq> None
           \<and> avcodec_open2_ok l
               \<lparr>av_width = width ctx, av_height = height ctx, pix_fmt = fmt, is_open = False\<rparr>"
    then have r: "r = 0" using o(1) by auto
    from o(3) [OF r] o(4) [OF r] cs r show "stderr_lines W = stderr_lines w
             \<and> codec_state (ctx', W)
                 = Some \<lparr>av_width = width ctx, av_height = height ctx, pix_fmt = fmt,
                         is_open = True\<rparr>"
      by (simp add: W_def)
  qed
  have 5: "case yuv2rgb ctx' of None \<Rightarrow> True
        | Some h \<Rightarrow> map_option srcFormat (sws_contexts W h) = Some fmt"
    using f(2) by (simp add: W_def log_event_fields split: option.splits)
  have 6: "case codec_ctx ctx' of None \<Rightarrow> True
        | Some c \<Rightarrow> map_option pix_fmt (codec_contexts W c) = Some fmt"
    using f(3) by (simp add: W_def log_event_fields split: option.splits)
  have 7: "set_decoder_csc_format l (ctx', W) fmt = Inr (ctx', W)"
    using assms(1) f(1) by (simp add: set_decoder_csc_format_def)
  have 8: "0 \<le> fmt2 \<and> fmt2 \<noteq> fmt
         \<and> init_decoder_context l (clean_decoder (ctx', W)) (width ctx') (height ctx') fmt2
             = Inr (0, ctx2, w2)
       \<longrightarrow> set_decoder_csc_format l (ctx', W) fmt2 = Inr (ctx2, w2)"
  proof -
    obtain ctx3 w3 where c3: "clean_decoder (ctx', W) = (ctx3, w3)"
      by (cases "clean_decoder (ctx', W)")
    note cf3 = clean_decoder_fields [OF c3]
    show ?thesis
      using f(1) by (simp add: set_decoder_csc_format_def c3 cf3)
  qed
  show ?thesis
    unfolding 2 sum.case prod.case
    apply (intro conjI)
    apply (fact 3 4 o(2) f(1) 5 6 7 8)+
    done
qed

theorem set_decoder_csc_format_failure_witness:
  "set_decoder_csc_format lib_no_444 sample_decoder 5 = Inr sample_decoder_failed
   \<and> csc_format (fst sample_decoder_failed) = 5
   \<and> stderr_lines (snd sample_decoder_failed)
       = [''could not open codec'', ''Failed to reconfigure decoder'']
   \<and> set_decoder_csc_format lib_no_444 sample_decoder_failed 5 = Inr sample_decoder_failed
   \<and> map_sum id codec_state (set_decoder_csc_format lib_no_444 sample_decoder_failed 4)
       = Inr (Some \<lparr>av_width = 640, av_height = 480, pix_fmt = 4, is_open = True\<rparr>)
   \<and> set_decoder_csc_format lib_no_444_converter sample_decoder 5
       = Inr sample_decoder_no_converter
   \<and> csc_format (fst sample_decoder_no_converter) = 5
   \<and> yuv2rgb (fst sample_decoder_no_converter) = None
   \<and> stderr_lines (snd sample_decoder_no_converter) = []
   \<and> codec_state sample_decoder_no_converter
       = Some \<lparr>av_width = 640, av_height = 480, pix_fmt = 5, is_open = True\<rparr>
   \<and> set_decoder_csc_format lib_no_444_converter sample_decoder_no_converter 5
       = Inr sample_decoder_no_converter
   \<and> map_sum id codec_state
       (set_decoder_csc_format lib_no_444_converter sample_decoder_no_converter 4)
       = Inr (Some \<lparr>av_width = 640, av_height = 480, pix_fmt = 4, is_open = True\<rparr>)"
proof -
  have h: "(0::int) \<le> 5" "csc_format (fst sample_decoder) \<noteq> 5"
    by (simp_all add: sample_decoder_opened)
  have s: "sample_decoder = (fst sample_decoder, snd sample_decoder)" by simp
  from sample_decoder_failed_recovers(1) obtain a2 v2 where
    ga: "init_decoder_context lib_no_444 (clean_decoder sample_decoder_failed) 640 480 4
        = Inr (0, a2, v2)"
    and sa: "codec_state (a2, v2)
        = Some \<lparr>av_width = 640, av_height = 480, pix_fmt = 4, is_open = True\<rparr>"
    by blast
  from sample_decoder_no_converter_recovers(1) obtain b2 u2 where
    gb: "init_decoder_context lib_no_444_converter (clean_decoder sample_decoder_no_converter)
        640 480 4 = Inr (0, b2, u2)"
    and sb: "codec_state (b2, u2)
        = Some \<lparr>av_width = 640, av_height = 480, pix_fmt = 4, is_open = True\<rparr>"
    by blast
  note ta = set_decoder_csc_format_failure
    [OF h, of lib_no_444 "snd sample_decoder" 4 a2 v2, folded s]
  note tb = set_decoder_csc_format_failure
    [OF h, of lib_no_444_converter "snd sample_decoder" 4 b2 u2, folded s]
  obtain ca wa where ra: "set_decoder_csc_format lib_no_444 sample_decoder 5 = Inr (ca, wa)"
    using ta by (cases "set_decoder_csc_format lib_no_444 sample_decoder 5") auto
  obtain cb wb where
    rb: "set_decoder_csc_format lib_no_444_converter sample_decoder 5 = Inr (cb, wb)"
    using tb by (cases "set_decoder_csc_format lib_no_444_converter sample_decoder 5") auto
  have ea: "sample_decoder_failed = (ca, wa)"
    by (simp add: sample_decoder_failed_def lib_no_444_formats ra)
  have eb: "sample_decoder_no_converter = (cb, wb)"
    by (simp add: sample_decoder_no_converter_def sample_libs_decoder rb)
  have wa: "width ca = 640" "height ca = 480"
    using sample_decoder_failed_recovers(2,3) by (simp_all add: ea)
  have wb: "width cb = 640" "height cb = 480"
    using sample_decoder_no_converter_recovers(2,3) by (simp_all add: eb)
  from ta have a: "csc_format ca = 5"
    "stderr_lines wa = [''could not open codec'', ''Failed to reconfigure decoder'']"
    "set_decoder_csc_format lib_no_444 (ca, wa) 5 = Inr (ca, wa)"
    "set_decoder_csc_format lib_no_444 (ca, wa) 4 = Inr (a2, v2)"
    using ga
    by (simp_all add: ra ea wa sample_libs_decoder sample_decoder_opened sample_decoder_stderr)
  from tb have b: "csc_format cb = 5" "yuv2rgb cb = None" "stderr_lines wb = []"
    "codec_state (cb, wb)
       = Some \<lparr>av_width = 640, av_height = 480, pix_fmt = 5, is_open = True\<rparr>"
    "set_decoder_csc_format lib_no_444_converter (cb, wb) 5 = Inr (cb, wb)"
    "set_decoder_csc_format lib_no_444_converter (cb, wb) 4 = Inr (b2, u2)"
    using gb
    by (simp_all add: rb eb wb sample_libs_decoder sample_decoder_opened sample_decoder_stderr)
  show ?thesis
    unfolding ea eb using ra rb a b sa sb by simp
qed

text \<open>C9 as stated fails. The sample decoder is opened for 4:2:0 and asked for 4:4:4.
  With an engine that cannot be opened for 4:4:4, the context is left with an unopened
  codec context and two lines on \<^verbatim>\<open>stderr\<close>; with a converter that cannot be built for
  4:4:4, it is left with the engine opened for 4:4:4 and no converter, and nothing is
  written. Neither is a terminal broken state: in both, a later request for 4:2:2
  yields an opened decoder without any close and reopen of the context.\<close>

theorem set_decoder_csc_format_counterexample:
  "init_decoder lib_no_444 empty_world 640 480 0
     = Inr (Some (fst sample_decoder), snd sample_decoder)
   \<and> set_decoder_csc_format lib_no_444 sample_decoder 5 = Inr sample_decoder_failed
   \<and> csc_format (fst sample_decoder_failed) = 5
   \<and> codec (fst sample_decoder_failed) = Some 0
   \<and> codec_state sample_decoder_failed
       = Some \<lparr>av_width = 640, av_height = 480, pix_fmt = 5, is_open = False\<rparr>
   \<and> stderr_lines (snd sample_decoder_failed)
       = [''could not open codec'', ''Failed to reconfigure decoder'']
   \<and> map_sum id codec_state (set_decoder_csc_format lib_no_444 sample_decoder_failed 4)
       = Inr (Some \<lparr>av_width = 640, av_height = 480, pix_fmt = 4, is_open = True\<rparr>)
   \<and> init_decoder lib_no_444_converter empty_world 640 480 0
       = Inr (Some (fst sample_decoder), snd sample_decoder)
   \<and> set_decoder_csc_format lib_no_444_converter sample_decoder 5
       = Inr sample_decoder_no_converter
   \<and> csc_format (fst sample_decoder_no_converter) = 5
   \<and> yuv2rgb (fst sample_decoder_no_converter) = None
   \<and> codec (fst sample_decoder_no_converter) = Some 0
   \<and> codec_state sample_decoder_no_converter
       = Some \<lparr>av_width = 640, av_height = 480, pix_fmt = 5, is_open = True\<rparr>
   \<and> stderr_lines (snd sample_decoder_no_converter) = []
   \<and> map_sum id codec_state
       (set_decoder_csc_format lib_no_444_converter sample_decoder_no_converter 4)
       = Inr (Some \<lparr>av_width = 640, av_height = 480, pix_fmt = 4, is_open = True\<rparr>)"
  by (simp add: sample_decoder_failed_def sample_decoder_no_converter_def
      sample_decoder_def codec_state_def stderr_lines_def
      init_decoder_def init_decoder_context_def set_decoder_csc_format_def
      clean_decoder_def lib_no_444_def lib_no_444_converter_def sample_lib_def
      empty_world_def zeroed_ctx_def sws_getContext_def sws_freeContext_def
      avcodec_find_decoder_def avcodec_alloc_context3_def avcodec_open2_def
      avcodec_close_free_def log_event_def get_csc_algo_for_quality_def Let_def)

text \<open>
  C10. For every integer quality percentage, also outside \<open>[0, 100]\<close>,
  \<^verbatim>\<open>get_x264_quality\<close> returns what it returns for the percentage clamped into
  \<open>[0, 100]\<close>, and its result lies in \<open>[1, 50]\<close>.
\<close>

theorem get_x264_quality_total:
  "get_x264_quality pct = get_x264_quality (max 0 (min 100 pct))
    \<and> 1 \<le> get_x264_quality pct \<and> get_x264_quality pct \<le> 50"
proof -
  define c where "c = max 0 (min 100 pct)"
  have c: "0 \<le> c" "c \<le> 100" by (simp_all add: c_def)
  have e: "get_x264_quality pct = get_x264_quality c"
    unfolding c_def by (rule get_x264_quality_clamped)
  have s: "get_x264_quality c = of_int (spec_quantizer c)"
    by (rule get_x264_quality_spec [OF c])
  from spec_quantizer_bounds [OF c]
  have "(1::rat) \<le> of_int (spec_quantizer c)" "(of_int (spec_quantizer c) :: rat) \<le> 50"
    by linarith+
  then show ?thesis using e s by (simp add: c_def)
qed

end
